theory Spec2Isabelle
  imports
    Main
    "HOL-Library.Sublist"
    "HOL-Library.Multiset"
    "HOL-Library.Char_ord"
    "HOL-Library.List_Lexorder"
begin

section \<open>Python values used by the two scripts\<close>

text \<open>
  A Python \<open>str\<close> is a \<^typ>\<open>string\<close>: one \<^typ>\<open>char\<close> stands for one code point, so the
  model covers the strings whose code points are below 256. On these, \<open>len\<close>, slicing,
  \<open>==\<close> and \<open>\<le>\<close> of Python are \<^const>\<open>length\<close>, \<^const>\<open>take\<close>, equality and the
  lexicographic order of \<open>List_Lexorder\<close> over the code-point order of \<open>Char_ord\<close>.

  Exceptions are values. Every constructor below is a subclass of Python's
  \<open>Exception\<close>, so an \<open>except Exception\<close> clause catches each of them. \<open>Failure msg\<close> is
  \<open>raise Exception(msg)\<close> of the source, and also an exception raised inside a vendor
  library (an HTTP error of the Drive client, an \<open>OSError\<close> of \<open>open\<close>) with that text.
\<close>

datatype py_error =
    IndexError
  | KeyError string
  | TypeError
  | ValueError
  | Failure string

text \<open>\<open>str(e)\<close>, as the f-strings of the \<open>except\<close> clauses print it.\<close>

fun error_text :: "py_error \<Rightarrow> string" where
  "error_text IndexError = ''list index out of range''"
| "error_text (KeyError k) = [CHR 0x27] @ k @ [CHR 0x27]"
| "error_text TypeError = [CHR 0x27] @ ''NoneType'' @ [CHR 0x27] @ '' object is not subscriptable''"
| "error_text ValueError = ''empty separator''"
| "error_text (Failure msg) = msg"

text \<open>\<open>xs[i]\<close> for a non-negative literal index \<open>i\<close>: out of range raises.\<close>

definition index_py :: "'a list \<Rightarrow> nat \<Rightarrow> py_error + 'a" where
  "index_py xs i = (if i < length xs then Inr (xs ! i) else Inl IndexError)"

text \<open>
  \<open>s.find(sub)\<close>: the index of the leftmost occurrence of \<open>sub\<close> in \<open>s\<close>, \<open>None\<close> where
  Python answers \<open>-1\<close>.
\<close>

fun find_py :: "string \<Rightarrow> string \<Rightarrow> nat option" where
  "find_py sub [] = (if sub = [] then Some 0 else None)"
| "find_py sub (c # cs) =
     (if prefix sub (c # cs) then Some 0 else map_option Suc (find_py sub cs))"

text \<open>\<open>sub in s\<close> for two strings.\<close>

definition in_py :: "string \<Rightarrow> string \<Rightarrow> bool" where
  "in_py sub s = (find_py sub s \<noteq> None)"

text \<open>
  \<open>s.split(sep)\<close> for a non-empty separator: cut at the leftmost occurrence and go on
  behind it, so occurrences are found left to right and do not overlap.
\<close>

function split_nonempty :: "string \<Rightarrow> string \<Rightarrow> string list" where
  "split_nonempty sep s =
     (case find_py sep s of
        None \<Rightarrow> [s]
      | Some i \<Rightarrow>
          if sep = [] then [s]
          else take i s # split_nonempty sep (drop (i + length sep) s))"
  by pat_completeness auto

lemma find_py_nonempty: "find_py sep s = Some i \<Longrightarrow> sep \<noteq> [] \<Longrightarrow> s \<noteq> []"
  by (cases s) (auto split: if_splits)

termination split_nonempty
proof (relation "measure (\<lambda>(sep, s). length s)")
  show "wf (measure (\<lambda>(sep, s). length s))"
    by simp
next
  fix sep s :: string and i :: nat
  assume found: "find_py sep s = Some i" and sep: "sep \<noteq> []"
  from find_py_nonempty [OF found sep] have "0 < length s"
    by simp
  moreover from sep have "0 < i + length sep"
    by simp
  ultimately show "((sep, drop (i + length sep) s), (sep, s)) \<in> measure (\<lambda>(sep, s). length s)"
    by simp
qed

declare split_nonempty.simps [simp del]

text \<open>\<open>s.split(sep)\<close>: an empty separator raises \<open>ValueError\<close>.\<close>

definition split_py :: "string \<Rightarrow> string \<Rightarrow> py_error + string list" where
  "split_py s sep = (if sep = [] then Inl ValueError else Inr (split_nonempty sep s))"

text \<open>\<open>str(n)\<close> for a non-negative integer.\<close>

fun str_nat :: "nat \<Rightarrow> string" where
  "str_nat n =
     (if n < 10 then [char_of (48 + n)]
      else str_nat (n div 10) @ [char_of (48 + n mod 10)])"

text \<open>\<open>str(x)\<close> inside an f-string for a value that is a string or \<open>None\<close>.\<close>

fun str_opt :: "string option \<Rightarrow> string" where
  "str_opt None = ''None''"
| "str_opt (Some s) = s"

text \<open>\<open>os.path.join(a, b)\<close> of \<open>posixpath\<close>, for two components.\<close>

definition path_join :: "string \<Rightarrow> string \<Rightarrow> string" where
  "path_join a b =
     (if prefix ''/'' b then b
      else if a = [] \<or> suffix ''/'' a then a @ b
      else a @ ''/'' @ b)"

section \<open>Identifier extraction\<close>

text \<open>
  Both scripts compute the document identifier with the same expression,
  \<^verbatim>\<open>doc_url.split('/d/')[1].split('/')[0]\<close>
  (\<open>fetch_google_doc_info\<close>, and \<open>download_gdoc\<close> of the download script).
\<close>

definition extract_doc_id :: "string \<Rightarrow> py_error + string" where
  "extract_doc_id doc_url =
     (case split_py doc_url ''/d/'' of
        Inl e \<Rightarrow> Inl e
      | Inr parts \<Rightarrow>
          (case index_py parts 1 of
             Inl e \<Rightarrow> Inl e
           | Inr rest \<Rightarrow>
               (case split_py rest ''/'' of
                  Inl e \<Rightarrow> Inl e
                | Inr segs \<Rightarrow> index_py segs 0)))"

section \<open>The document-storage service\<close>

text \<open>
  The Drive client is outside the repository. Its answers are the fields of a record
  \<open>google\<close> that stands for the credentials and the remote service behind them:
  \<^item> \<open>build\<close>: \<open>build('drive', 'v3', credentials=creds)\<close>, \<open>Some e\<close> when it raises;
  \<^item> \<open>files_get doc_id\<close>: \<open>files().get(fileId=doc_id, fields=...).execute()\<close>, the
    exception it raises or the metadata dictionary;
  \<^item> \<open>open_wb path\<close>: \<open>open(path, "wb")\<close>, \<open>Some e\<close> when it raises;
  \<^item> \<open>next_chunk doc_id n\<close>: the answer of the call of \<open>downloader.next_chunk()\<close> made
    after \<open>n\<close> earlier calls for the same document: an exception, or the value of
    \<open>int(status.progress() * 100)\<close> and the flag \<open>done\<close>.

  The metadata dictionary holds the three requested fields; a key that is missing is
  \<open>None\<close>. An owner is a dictionary with the one requested key \<open>displayName\<close>.
\<close>

record owner_entry =
  displayName :: "string option"

record file_metadata =
  md_name :: "string option"
  md_owners :: "owner_entry list option"
  md_modifiedTime :: "string option"

record google =
  build :: "py_error option"
  files_get :: "string \<Rightarrow> py_error + file_metadata"
  open_wb :: "string \<Rightarrow> py_error option"
  next_chunk :: "string \<Rightarrow> nat \<Rightarrow> py_error + nat \<times> bool"

text \<open>
  The dictionary \<open>{"title": name, "owner": owner, "modified_date": modified_time}\<close> that
  \<open>fetch_google_doc_info\<close> returns; \<open>main\<close> adds the key \<open>"url"\<close> to it.
\<close>

record doc_info =
  title :: "string option"
  owner :: string
  modified_date :: string

record aggregated_doc = doc_info +
  url :: string

text \<open>
  The body of the \<open>try\<close> block of \<open>fetch_google_doc_info\<close>.
  \<open>file_metadata.get('owners', [{}])[0]\<close> raises \<open>IndexError\<close> on an empty list of owners.
\<close>

definition fetch_metadata :: "string \<Rightarrow> google \<Rightarrow> py_error + doc_info" where
  "fetch_metadata doc_id creds =
     (case files_get creds doc_id of
        Inl e \<Rightarrow> Inl e
      | Inr file_metadata \<Rightarrow>
          (case index_py
                  (case md_owners file_metadata of
                     None \<Rightarrow> [\<lparr>displayName = None\<rparr>]
                   | Some os \<Rightarrow> os) 0 of
             Inl e \<Rightarrow> Inl e
           | Inr first_owner \<Rightarrow>
               Inr \<lparr>title = md_name file_metadata,
                    owner = (case displayName first_owner of
                               None \<Rightarrow> ''Unknown'' | Some n \<Rightarrow> n),
                    modified_date = (case md_modifiedTime file_metadata of
                                       None \<Rightarrow> ''Unknown'' | Some t \<Rightarrow> t)\<rparr>))"

text \<open>
  \<open>fetch_google_doc_info(doc_url, creds)\<close>, the same function in both scripts. The
  result is the lines printed and then either the exception that leaves the function
  (\<open>Inl\<close>) or the value returned: \<open>None\<close> from the \<open>except\<close> clause, the dictionary
  otherwise. The identifier is extracted and the service built before the \<open>try\<close>.
\<close>

definition fetch_google_doc_info ::
  "string \<Rightarrow> google \<Rightarrow> string list \<times> (py_error + doc_info option)" where
  "fetch_google_doc_info doc_url creds =
     (case extract_doc_id doc_url of
        Inl e \<Rightarrow> ([], Inl e)
      | Inr doc_id \<Rightarrow>
          (case build creds of
             Some e \<Rightarrow> ([], Inl e)
           | None \<Rightarrow>
               (case fetch_metadata doc_id creds of
                  Inl e \<Rightarrow> ([''Error retrieving metadata: '' @ error_text e], Inr None)
                | Inr info \<Rightarrow> ([], Inr (Some info)))))"

section \<open>The bookmark-manager service\<close>

text \<open>
  An Instapaper session answers each request with a response: its status code, its
  text, and its JSON body already decoded. The record \<open>instapaper\<close> gives the response
  to each of the four requests the scripts post. A folder and a bookmark entry are
  dictionaries; the keys the scripts read are the fields, \<open>None\<close> for a missing key.
\<close>

record 'a response =
  status_code :: int
  resp_text :: string
  json :: 'a

record folder =
  f_type :: "string option"
  f_title :: "string option"
  f_folder_id :: "int option"

record bookmark =
  bm_type :: "string option"
  bm_url :: "string option"
  bm_title :: "string option"

text \<open>The form data of \<open>bookmarks/add\<close>.\<close>

record bookmark_data =
  data_url :: string
  data_title :: string
  data_description :: string
  data_content :: string
  data_folder_id :: int

record instapaper =
  folders_list :: "folder list response"
  bookmarks_list :: "int \<Rightarrow> nat \<Rightarrow> bookmark list response"
  folders_add :: "string \<Rightarrow> folder list response"
  bookmarks_add :: "bookmark_data \<Rightarrow> unit response"

text \<open>The condition of the \<open>if\<close> inside the loop of \<open>get_instapaper_folder_id\<close>.\<close>

definition folder_matches :: "string \<Rightarrow> folder \<Rightarrow> bool" where
  "folder_matches folder_name folder =
     (f_type folder = Some ''folder'' \<and> f_title folder = Some folder_name)"

text \<open>The \<open>for\<close> loop of \<open>get_instapaper_folder_id\<close> and the \<open>return None\<close> behind it.\<close>

fun scan_folders :: "folder list \<Rightarrow> string \<Rightarrow> int option" where
  "scan_folders [] folder_name = None"
| "scan_folders (folder # folders) folder_name =
     (if folder_matches folder_name folder then f_folder_id folder
      else scan_folders folders folder_name)"

definition get_instapaper_folder_id :: "instapaper \<Rightarrow> string \<Rightarrow> py_error + int option" where
  "get_instapaper_folder_id session folder_name =
     (let response = folders_list session in
      if status_code response = 200 then Inr (scan_folders (json response) folder_name)
      else Inl (Failure (''Failed to fetch folders: '' @ resp_text response)))"

text \<open>\<open>not folder_id\<close>: true of \<open>None\<close> and of \<open>0\<close>.\<close>

fun not_py :: "int option \<Rightarrow> bool" where
  "not_py None = True"
| "not_py (Some i) = (i = 0)"

text \<open>The condition of the list comprehension of \<open>get_instapaper_bookmarks\<close>.\<close>

definition is_gdoc_bookmark :: "bookmark \<Rightarrow> bool" where
  "is_gdoc_bookmark item =
     (bm_type item = Some ''bookmark'' \<and>
      in_py ''docs.google.com/document'' (case bm_url item of None \<Rightarrow> [] | Some u \<Rightarrow> u))"

definition get_instapaper_bookmarks :: "instapaper \<Rightarrow> string \<Rightarrow> py_error + bookmark list" where
  "get_instapaper_bookmarks session folder_name =
     (case get_instapaper_folder_id session folder_name of
        Inl e \<Rightarrow> Inl e
      | Inr folder_id \<Rightarrow>
          if not_py folder_id then Inl (Failure (''No such folder named '' @ folder_name))
          else
            let response = bookmarks_list session (the folder_id) 500 in
            if status_code response = 200 then Inr (filter is_gdoc_bookmark (json response))
            else Inl (Failure (''Failed to fetch bookmarks: '' @ resp_text response)))"

section \<open>Reorganize mode\<close>

text \<open>
  What a run of the reorganize script does, in order: the lines it prints, the requests
  that write to Instapaper, and the pauses.
\<close>

datatype event =
    Print string
  | FolderAdd string
  | BookmarkAdd bookmark_data
  | Sleep nat

definition create_instapaper_folder ::
  "instapaper \<Rightarrow> string \<Rightarrow> event list \<times> (py_error + int)" where
  "create_instapaper_folder session folder_name =
     (let response = folders_add session folder_name in
      ([FolderAdd folder_name],
       if status_code response = 200 then
         (case index_py (json response) 0 of
            Inl e \<Rightarrow> Inl e
          | Inr created \<Rightarrow>
              (case f_folder_id created of
                 None \<Rightarrow> Inl (KeyError ''folder_id'')
               | Some i \<Rightarrow> Inr i))
       else Inl (Failure (''Failed to create folder: '' @ resp_text response))))"

definition save_instapaper_bookmark ::
  "instapaper \<Rightarrow> int \<Rightarrow> string \<Rightarrow> string \<Rightarrow> string \<Rightarrow> event list \<times> (py_error + unit)" where
  "save_instapaper_bookmark session folder_id u t description =
     (let data = \<lparr>data_url = u, data_title = t, data_description = description,
                  data_content = description, data_folder_id = folder_id\<rparr>;
          response = bookmarks_add session data in
      ([BookmarkAdd data],
       if status_code response \<noteq> 200
       then Inl (Failure (''Failed to save bookmark: '' @ resp_text response))
       else Inr ()))"

text \<open>
  \<open>generate_unique_folder_name(base_name)\<close>; \<open>uuid4_str\<close> is the value of
  \<open>str(uuid.uuid4())\<close>, a string of 36 characters.
\<close>

definition generate_unique_folder_name :: "string \<Rightarrow> string \<Rightarrow> string" where
  "generate_unique_folder_name base_name uuid4_str =
     (let unique_suffix = take 4 uuid4_str in base_name @ ''-'' @ unique_suffix)"

text \<open>The command line of the reorganize script, parsed.\<close>

record args =
  arg_folder_name :: string
  arg_target :: "string option"

text \<open>
  \<open>args.target or generate_unique_folder_name(folder_name)\<close>: the right operand is taken
  when the left one is \<open>None\<close> or the empty string.
\<close>

definition choose_new_folder_name :: "args \<Rightarrow> string \<Rightarrow> string" where
  "choose_new_folder_name a uuid4_str =
     (case arg_target a of
        None \<Rightarrow> generate_unique_folder_name (arg_folder_name a) uuid4_str
      | Some t \<Rightarrow>
          if t = [] then generate_unique_folder_name (arg_folder_name a) uuid4_str else t)"

text \<open>
  Step 4 of \<open>main\<close>, the loop that fills \<open>docs_info\<close>. The state is the events so far and
  \<open>docs_info\<close>. In the \<open>print\<close>, \<open>bookmark["title"]\<close> is evaluated before
  \<open>doc_info["owner"]\<close>; subscripting \<open>None\<close> raises \<open>TypeError\<close>.
\<close>

fun collect_docs_info ::
  "google \<Rightarrow> bookmark list \<Rightarrow> event list \<Rightarrow> aggregated_doc list \<Rightarrow>
   event list \<times> (py_error + aggregated_doc list)" where
  "collect_docs_info creds [] evs docs_info = (evs, Inr docs_info)"
| "collect_docs_info creds (bookmark # bookmarks) evs docs_info =
     (case bm_url bookmark of
        None \<Rightarrow> (evs, Inl (KeyError ''url''))
      | Some u \<Rightarrow>
          (case fetch_google_doc_info u creds of
             (out, Inl e) \<Rightarrow> (evs @ map Print out, Inl e)
           | (out, Inr fetched) \<Rightarrow>
               (case bm_title bookmark of
                  None \<Rightarrow> (evs @ map Print out, Inl (KeyError ''title''))
                | Some t \<Rightarrow>
                    (case fetched of
                       None \<Rightarrow> (evs @ map Print out, Inl TypeError)
                     | Some info \<Rightarrow>
                         collect_docs_info creds bookmarks
                           (evs @ map Print out @
                            [Print (''Got '' @ t @ '' - '' @ owner info @ '' '' @
                                    take 10 (modified_date info))])
                           (docs_info @ [doc_info.extend info \<lparr>url = u\<rparr>])))))"

text \<open>
  Step 5, \<open>docs_info.sort(key=lambda x: x['modified_date'])\<close>. Python's \<open>list.sort\<close> is
  a stable sort by the key; \<^const>\<open>sort_key\<close> is the stable insertion sort.
\<close>

definition sort_docs_info :: "aggregated_doc list \<Rightarrow> aggregated_doc list" where
  "sort_docs_info docs_info = sort_key modified_date docs_info"

text \<open>The two f-strings of step 7.\<close>

definition bookmark_title :: "aggregated_doc \<Rightarrow> string" where
  "bookmark_title doc =
     str_opt (title doc) @ '' - '' @ owner doc @ '' - '' @ take 10 (modified_date doc)"

definition bookmark_description :: "aggregated_doc \<Rightarrow> string" where
  "bookmark_description doc =
     str_opt (title doc) @ '' - '' @ owner doc @ ''<br>'' @ [CHR 0x0A] @
     take 10 (modified_date doc) @ ''<br>'' @ [CHR 0x0A] @
     ''<a href='' @ [CHR 0x22] @ url doc @ [CHR 0x22] @ ''>'' @ url doc @ ''</a><br>''"

text \<open>Step 7, the loop that saves the new bookmarks.\<close>

fun save_docs ::
  "instapaper \<Rightarrow> int \<Rightarrow> aggregated_doc list \<Rightarrow> event list \<Rightarrow> event list \<times> (py_error + unit)" where
  "save_docs session new_folder_id [] evs = (evs, Inr ())"
| "save_docs session new_folder_id (doc # docs) evs =
     (let t = bookmark_title doc;
          description = bookmark_description doc;
          evs1 = evs @ [Print (''Adding '' @ take 10 (modified_date doc) @ '' - '' @
                               str_opt (title doc))]
      in case save_instapaper_bookmark session new_folder_id (url doc) t description of
           (posted, Inl e) \<Rightarrow> (evs1 @ posted, Inl e)
         | (posted, Inr _) \<Rightarrow>
             save_docs session new_folder_id docs (evs1 @ posted @ [Sleep 1]))"

text \<open>Step 6: look the target folder up, and create it when the lookup is falsy.\<close>

definition resolve_new_folder ::
  "instapaper \<Rightarrow> string \<Rightarrow> event list \<times> (py_error + int)" where
  "resolve_new_folder session new_folder_name =
     (case get_instapaper_folder_id session new_folder_name of
        Inl e \<Rightarrow> ([], Inl e)
      | Inr new_folder_id \<Rightarrow>
          if not_py new_folder_id then create_instapaper_folder session new_folder_name
          else ([], Inr (the new_folder_id)))"

text \<open>
  \<open>main\<close> of the reorganize script. Steps 1 and 2 (the two OAuth handshakes) are the
  parameter \<open>login\<close>: they raise, or they give the session and the credentials.
\<close>

definition main_reorganize ::
  "args \<Rightarrow> string \<Rightarrow> py_error + instapaper \<times> google \<Rightarrow> event list \<times> (py_error + unit)" where
  "main_reorganize a uuid4_str login =
     (let folder_name = arg_folder_name a;
          new_folder_name = choose_new_folder_name a uuid4_str;
          evs0 = [Print (''Scanning folder: '' @ folder_name),
                  Print (''New folder name: '' @ new_folder_name)]
      in case login of
           Inl e \<Rightarrow> (evs0, Inl e)
         | Inr (session, creds) \<Rightarrow>
             (case get_instapaper_bookmarks session folder_name of
                Inl e \<Rightarrow> (evs0, Inl e)
              | Inr bookmarks \<Rightarrow>
                  (case collect_docs_info creds bookmarks evs0 [] of
                     (evs1, Inl e) \<Rightarrow> (evs1, Inl e)
                   | (evs1, Inr docs_info) \<Rightarrow>
                       (case resolve_new_folder session new_folder_name of
                          (evs2, Inl e) \<Rightarrow> (evs1 @ evs2, Inl e)
                        | (evs2, Inr new_folder_id) \<Rightarrow>
                            save_docs session new_folder_id (sort_docs_info docs_info)
                              (evs1 @ evs2)))))"

text \<open>The form data of the \<open>bookmarks/add\<close> requests of a run, in the order of the requests.\<close>

fun added_bookmarks :: "event list \<Rightarrow> bookmark_data list" where
  "added_bookmarks [] = []"
| "added_bookmarks (BookmarkAdd data # evs) = data # added_bookmarks evs"
| "added_bookmarks (ev # evs) = added_bookmarks evs"

section \<open>Download mode\<close>

text \<open>
  The \<open>while not done\<close> loop of \<open>download_gdoc\<close>. It runs as long as the downloader
  answers with \<open>done = False\<close>, so the model is partial: \<open>None\<close> is a loop that never
  ends. Otherwise the result is the lines printed and the exception that left the loop,
  if one did.
\<close>

partial_function (option) download_chunks ::
  "google \<Rightarrow> string \<Rightarrow> nat \<Rightarrow> string list \<Rightarrow> (string list \<times> py_error option) option" where
  "download_chunks creds doc_id n out =
     (case next_chunk creds doc_id n of
        Inl e \<Rightarrow> Some (out, Some e)
      | Inr (progress, done) \<Rightarrow>
          if done
          then Some (out @ [''Download progress: '' @ str_nat progress @ ''%''], None)
          else download_chunks creds doc_id (Suc n)
                 (out @ [''Download progress: '' @ str_nat progress @ ''%'']))"

text \<open>The \<open>except\<close> clause of \<open>download_gdoc\<close>: print, return \<open>None\<close>.\<close>

definition download_failed :: "string list \<Rightarrow> py_error \<Rightarrow> string list \<times> string option" where
  "download_failed out e = (out @ [''Error downloading Google Doc: '' @ error_text e], None)"

text \<open>
  \<open>download_gdoc(doc_url, title, save_folder, creds)\<close>: the whole body is inside the
  \<open>try\<close>. The result is the lines printed and the value returned, the output path or
  \<open>None\<close>.
\<close>

definition download_gdoc ::
  "string \<Rightarrow> string \<Rightarrow> string \<Rightarrow> google \<Rightarrow> (string list \<times> string option) option" where
  "download_gdoc doc_url t save_folder creds =
     (case extract_doc_id doc_url of
        Inl e \<Rightarrow> Some (download_failed [] e)
      | Inr doc_id \<Rightarrow>
          (case build creds of
             Some e \<Rightarrow> Some (download_failed [] e)
           | None \<Rightarrow>
               (let output_file_path = path_join save_folder (t @ ''.docx'') in
                case open_wb creds output_file_path of
                  Some e \<Rightarrow> Some (download_failed [] e)
                | None \<Rightarrow>
                    (case download_chunks creds doc_id 0 [] of
                       None \<Rightarrow> None
                     | Some (out, Some e) \<Rightarrow> Some (download_failed out e)
                     | Some (out, None) \<Rightarrow>
                         Some (out @ [''Google Doc downloaded successfully as '' @
                                      [CHR 0x27] @ output_file_path @ [CHR 0x27]],
                               Some output_file_path)))))"

text \<open>
  Step 4 of \<open>main\<close> of the download script: the loop over the bookmarks. The value
  \<open>download_gdoc\<close> returns is not used.
\<close>

fun download_bookmarks ::
  "bookmark list \<Rightarrow> string \<Rightarrow> google \<Rightarrow> string list \<Rightarrow> (string list \<times> (py_error + unit)) option" where
  "download_bookmarks [] save_folder creds out = Some (out, Inr ())"
| "download_bookmarks (bookmark # bookmarks) save_folder creds out =
     (case bm_title bookmark of
        None \<Rightarrow> Some (out, Inl (KeyError ''title''))
      | Some t \<Rightarrow>
          (case bm_url bookmark of
             None \<Rightarrow> Some (out @ [''Got '' @ t], Inl (KeyError ''url''))
           | Some u \<Rightarrow>
               (case download_gdoc u t save_folder creds of
                  None \<Rightarrow> None
                | Some (printed, returned) \<Rightarrow>
                    download_bookmarks bookmarks save_folder creds
                      (out @ [''Got '' @ t] @ printed))))"

text \<open>
  \<open>main\<close> of the download script; \<open>login\<close> as in the reorganize script.
\<close>

definition main_download ::
  "string \<Rightarrow> string \<Rightarrow> py_error + instapaper \<times> google \<Rightarrow>
   (string list \<times> (py_error + unit)) option" where
  "main_download folder save_folder login =
     (let out0 = [''Scanning folder: '' @ folder @ '', downloading docs to '' @ save_folder]
      in case login of
           Inl e \<Rightarrow> Some (out0, Inl e)
         | Inr (session, creds) \<Rightarrow>
             (case get_instapaper_bookmarks session folder of
                Inl e \<Rightarrow> Some (out0, Inl e)
              | Inr bookmarks \<Rightarrow> download_bookmarks bookmarks save_folder creds out0))"

declare download_chunks.simps [code]

text \<open>
  An answer of \<open>next_chunk\<close> that ends the loop: an exception, or \<open>done = True\<close>.
\<close>

definition chunk_final :: "py_error + nat \<times> bool \<Rightarrow> bool" where
  "chunk_final r = (case r of Inl e \<Rightarrow> True | Inr (progress, done) \<Rightarrow> done)"

section \<open>An example account\<close>

text \<open>
  Concrete services on which the theorems below are instantiated. The folder
  \<open>Reading\<close> exists twice, behind a folder whose title only starts with \<open>Reading\<close>; its
  listing holds a \<open>meta\<close> entry, three Google Docs and one other link. The second
  document cannot be exported; with \<open>failing_creds\<close> its metadata cannot be read either.
\<close>

definition example_folders :: "folder list" where
  "example_folders =
     [\<lparr>f_type = Some ''folder'', f_title = Some ''Reading list'', f_folder_id = Some 1\<rparr>,
      \<lparr>f_type = Some ''folder'', f_title = Some ''Reading'', f_folder_id = Some 2\<rparr>,
      \<lparr>f_type = Some ''folder'', f_title = Some ''Reading'', f_folder_id = Some 3\<rparr>]"

definition example_items :: "bookmark list" where
  "example_items =
     [\<lparr>bm_type = Some ''meta'', bm_url = None, bm_title = None\<rparr>,
      \<lparr>bm_type = Some ''bookmark'', bm_url = Some ''https://docs.google.com/document/d/doc1/edit'',
        bm_title = Some ''May notes''\<rparr>,
      \<lparr>bm_type = Some ''bookmark'', bm_url = Some ''https://example.com/article'',
        bm_title = Some ''Article''\<rparr>,
      \<lparr>bm_type = Some ''bookmark'', bm_url = Some ''https://docs.google.com/document/d/doc2/edit'',
        bm_title = Some ''January notes''\<rparr>,
      \<lparr>bm_type = Some ''bookmark'', bm_url = Some ''https://docs.google.com/document/d/doc3/edit'',
        bm_title = Some ''January later''\<rparr>]"

definition example_session :: instapaper where
  "example_session =
     \<lparr>folders_list = \<lparr>status_code = 200, resp_text = [], json = example_folders\<rparr>,
      bookmarks_list = (\<lambda>folder_id limit.
         \<lparr>status_code = 200, resp_text = [],
          json = (if folder_id = 2 then example_items else [])\<rparr>),
      folders_add = (\<lambda>folder_name.
         \<lparr>status_code = 200, resp_text = [],
          json = [\<lparr>f_type = Some ''folder'', f_title = Some folder_name, f_folder_id = Some 7\<rparr>]\<rparr>),
      bookmarks_add = (\<lambda>data. \<lparr>status_code = 200, resp_text = [], json = ()\<rparr>)\<rparr>"

definition example_files :: "string \<Rightarrow> py_error + file_metadata" where
  "example_files doc_id =
     (if doc_id = ''doc1'' then
        Inr \<lparr>md_name = Some ''May'', md_owners = Some [\<lparr>displayName = Some ''Ann''\<rparr>],
             md_modifiedTime = Some ''2023-05-01''\<rparr>
      else if doc_id = ''doc2'' then
        Inr \<lparr>md_name = Some ''Jan'', md_owners = Some [\<lparr>displayName = Some ''Bob''\<rparr>],
             md_modifiedTime = Some ''2023-01-10''\<rparr>
      else if doc_id = ''doc3'' then
        Inr \<lparr>md_name = Some ''Later'', md_owners = None,
             md_modifiedTime = Some ''2023-01-10T00:00:01''\<rparr>
      else if doc_id = ''doc4'' then
        Inr \<lparr>md_name = None, md_owners = Some [\<lparr>displayName = None\<rparr>],
             md_modifiedTime = None\<rparr>
      else if doc_id = ''doc5'' then
        Inr \<lparr>md_name = Some ''Again'', md_owners = Some [\<lparr>displayName = Some ''Eve''\<rparr>],
             md_modifiedTime = Some ''2023-05-01''\<rparr>
      else Inl (Failure ''File not found''))"

definition example_creds :: google where
  "example_creds =
     \<lparr>build = None,
      files_get = example_files,
      open_wb = (\<lambda>path. None),
      next_chunk = (\<lambda>doc_id n.
         if doc_id = ''doc2'' then Inl (Failure ''export failed'')
         else if n = 0 then Inr (50, False) else Inr (100, True))\<rparr>"

definition failing_creds :: google where
  "failing_creds =
     example_creds\<lparr>files_get := (\<lambda>doc_id.
        if doc_id = ''doc2'' then Inl (Failure ''File not found'') else example_files doc_id)\<rparr>"

definition example_args :: args where
  "example_args = \<lparr>arg_folder_name = ''Reading'', arg_target = Some ''Sorted''\<rparr>"

definition example_uuid :: string where
  "example_uuid = ''ab12cd34-0000-4000-8000-000000000000''"

text \<open>
  A second listing of the folder, with a fourth Google Doc whose date is that of the first
  one; the bookmarks the adapter keeps of it, and the list that step 4 aggregates.
\<close>

definition tie_session :: instapaper where
  "tie_session =
     example_session\<lparr>bookmarks_list := (\<lambda>folder_id limit.
        \<lparr>status_code = 200, resp_text = [],
         json = example_items @
           [\<lparr>bm_type = Some ''bookmark'',
              bm_url = Some ''https://docs.google.com/document/d/doc5/edit'',
              bm_title = Some ''May again''\<rparr>]\<rparr>)\<rparr>"

definition tie_bookmarks :: "bookmark list" where
  "tie_bookmarks =
     [\<lparr>bm_type = Some ''bookmark'', bm_url = Some ''https://docs.google.com/document/d/doc1/edit'',
        bm_title = Some ''May notes''\<rparr>,
      \<lparr>bm_type = Some ''bookmark'', bm_url = Some ''https://docs.google.com/document/d/doc2/edit'',
        bm_title = Some ''January notes''\<rparr>,
      \<lparr>bm_type = Some ''bookmark'', bm_url = Some ''https://docs.google.com/document/d/doc3/edit'',
        bm_title = Some ''January later''\<rparr>,
      \<lparr>bm_type = Some ''bookmark'', bm_url = Some ''https://docs.google.com/document/d/doc5/edit'',
        bm_title = Some ''May again''\<rparr>]"

definition tie_docs :: "aggregated_doc list" where
  "tie_docs =
     [\<lparr>title = Some ''May'', owner = ''Ann'', modified_date = ''2023-05-01'',
        url = ''https://docs.google.com/document/d/doc1/edit''\<rparr>,
      \<lparr>title = Some ''Jan'', owner = ''Bob'', modified_date = ''2023-01-10'',
        url = ''https://docs.google.com/document/d/doc2/edit''\<rparr>,
      \<lparr>title = Some ''Later'', owner = ''Unknown'', modified_date = ''2023-01-10T00:00:01'',
        url = ''https://docs.google.com/document/d/doc3/edit''\<rparr>,
      \<lparr>title = Some ''Again'', owner = ''Eve'', modified_date = ''2023-05-01'',
        url = ''https://docs.google.com/document/d/doc5/edit''\<rparr>]"

text \<open>
  Bookmarks for the download script: the second document cannot be exported, and the url
  of the third bookmark has no \<open>/d/\<close>.
\<close>

definition download_items :: "bookmark list" where
  "download_items =
     [\<lparr>bm_type = Some ''bookmark'', bm_url = Some ''https://docs.google.com/document/d/doc1/edit'',
        bm_title = Some ''May notes''\<rparr>,
      \<lparr>bm_type = Some ''bookmark'', bm_url = Some ''https://docs.google.com/document/d/doc2/edit'',
        bm_title = Some ''January notes''\<rparr>,
      \<lparr>bm_type = Some ''bookmark'', bm_url = Some ''https://docs.google.com/document/u/0/'',
        bm_title = Some ''Home''\<rparr>,
      \<lparr>bm_type = Some ''bookmark'', bm_url = Some ''https://docs.google.com/document/d/doc3/edit'',
        bm_title = Some ''January later''\<rparr>]"

lemmas example_defs =
  example_folders_def example_items_def example_session_def example_files_def
  example_creds_def failing_creds_def example_args_def example_uuid_def
  tie_session_def tie_bookmarks_def tie_docs_def download_items_def

section \<open>Properties of the string operations\<close>

lemma find_py_None_iff: "find_py sub s = None \<longleftrightarrow> (\<forall>p q. s \<noteq> p @ sub @ q)"
proof (induction s)
  case Nil
  show ?case by auto
next
  case (Cons c cs)
  show ?case
  proof (cases "prefix sub (c # cs)")
    case True
    then obtain q where "c # cs = [] @ sub @ q"
      by (auto simp: prefix_def)
    with True show ?thesis
      by (metis find_py.simps(2) option.distinct(1))
  next
    case False
    have "(\<exists>p q. c # cs = p @ sub @ q) \<longleftrightarrow> (\<exists>p q. cs = p @ sub @ q)"
    proof
      assume "\<exists>p q. c # cs = p @ sub @ q"
      then obtain p q where pq: "c # cs = p @ sub @ q"
        by blast
      with False have "p \<noteq> []"
        by (auto simp: prefix_def)
      then obtain p' where "p = c # p'"
        using pq by (cases p) auto
      with pq show "\<exists>p q. cs = p @ sub @ q"
        by auto
    next
      assume "\<exists>p q. cs = p @ sub @ q"
      then obtain p q where "cs = p @ sub @ q"
        by blast
      then have "c # cs = (c # p) @ sub @ q"
        by simp
      then show "\<exists>p q. c # cs = p @ sub @ q"
        by blast
    qed
    then have "(\<forall>p q. c # cs \<noteq> p @ sub @ q) \<longleftrightarrow> (\<forall>p q. cs \<noteq> p @ sub @ q)"
      by blast
    with False Cons.IH show ?thesis
      by simp
  qed
qed

lemma find_py_SomeD: "find_py sub s = Some i \<Longrightarrow> i \<le> length s \<and> (\<exists>q. s = take i s @ sub @ q)"
proof (induction s arbitrary: i)
  case Nil
  then show ?case by (auto split: if_splits)
next
  case (Cons c cs)
  show ?case
  proof (cases "prefix sub (c # cs)")
    case True
    with Cons.prems show ?thesis
      by (auto simp: prefix_def)
  next
    case False
    with Cons.prems obtain j where j: "find_py sub cs = Some j" "i = Suc j"
      by auto
    from Cons.IH [OF j(1)] j(2) show ?thesis
      by auto
  qed
qed

lemma find_py_le: "s = p @ sub @ q \<Longrightarrow> \<exists>i. find_py sub s = Some i \<and> i \<le> length p"
proof (induction p arbitrary: s)
  case Nil
  then have "prefix sub s"
    by simp
  then show ?case
    by (cases s) auto
next
  case (Cons a p)
  then obtain i where "find_py sub (p @ sub @ q) = Some i" "i \<le> length p"
    by blast
  with Cons.prems show ?case
    by auto
qed

lemma find_py_first:
  assumes "s = p @ sub @ q" and "\<forall>p' q'. s = p' @ sub @ q' \<longrightarrow> length p \<le> length p'"
  shows "find_py sub s = Some (length p)"
proof -
  from find_py_le [OF assms(1)] obtain i where i: "find_py sub s = Some i" "i \<le> length p"
    by blast
  from find_py_SomeD [OF i(1)] obtain q' where "i \<le> length s" "s = take i s @ sub @ q'"
    by blast
  with assms(2) have "length p \<le> length (take i s)"
    by blast
  with i show ?thesis
    by simp
qed

lemma find_py_skip:
  "c \<notin> set seg \<Longrightarrow>
   find_py (c # sep) (seg @ w) = map_option (\<lambda>j. length seg + j) (find_py (c # sep) w)"
proof (induction seg)
  case Nil
  show ?case by (simp add: option.map_ident)
next
  case (Cons a seg)
  then show ?case
    by (simp add: option.map_comp comp_def)
qed

lemma split_nonempty_None: "find_py sep s = None \<Longrightarrow> split_nonempty sep s = [s]"
  by (subst split_nonempty.simps) simp

lemma split_nonempty_Some:
  "find_py sep s = Some i \<Longrightarrow> sep \<noteq> [] \<Longrightarrow>
   split_nonempty sep s = take i s # split_nonempty sep (drop (i + length sep) s)"
  by (subst split_nonempty.simps) simp

lemma find_py_absent: "c \<notin> set seg \<Longrightarrow> find_py (c # sep) seg = None"
  by (induction seg) auto

lemma split_nonempty_first:
  assumes "c \<notin> set seg" and "w = [] \<or> hd w = c"
  shows "index_py (split_nonempty [c] (seg @ w)) 0 = Inr seg"
proof (cases w)
  case Nil
  with assms(1) show ?thesis
    by (simp add: find_py_absent split_nonempty_None index_py_def)
next
  case (Cons a w')
  with assms(2) have "find_py [c] (seg @ w) = Some (length seg)"
    using find_py_skip [OF assms(1), of "[]" w] by simp
  from split_nonempty_Some [OF this] show ?thesis
    by (simp add: index_py_def)
qed

lemma find_py_least: "find_py sub s = Some i \<Longrightarrow> s = p @ sub @ q \<Longrightarrow> i \<le> length p"
  using find_py_le [of s p sub q] by auto

lemma in_py_iff: "in_py sub s \<longleftrightarrow> (\<exists>p q. s = p @ sub @ q)"
  by (simp add: in_py_def find_py_None_iff)

section \<open>Properties of the identifier extraction\<close>

lemma extract_doc_id_segment:
  assumes url: "doc_url = pre @ ''/d/'' @ seg @ ''/'' @ rest"
    and first: "\<forall>p q. doc_url = p @ ''/d/'' @ q \<longrightarrow> length pre \<le> length p"
    and seg: "CHR ''/'' \<notin> set seg"
  shows "extract_doc_id doc_url = Inr seg"
proof -
  let ?t = "seg @ ''/'' @ rest"
  from url have "doc_url = pre @ ''/d/'' @ ?t"
    by simp
  from find_py_first [OF this first] have "find_py ''/d/'' doc_url = Some (length pre)" .
  from split_nonempty_Some [OF this]
  have parts: "split_nonempty ''/d/'' doc_url = pre # split_nonempty ''/d/'' ?t"
    using url by simp
  have skip: "find_py ''/d/'' ?t = map_option (\<lambda>j. length seg + j) (find_py ''/d/'' (''/'' @ rest))"
    using find_py_skip [OF seg, of "''d/''" "''/'' @ rest"] by simp
  obtain w where piece: "index_py (split_nonempty ''/d/'' ?t) 0 = Inr (seg @ w)"
    and w: "w = [] \<or> hd w = CHR ''/''"
  proof (cases "find_py ''/d/'' (''/'' @ rest)")
    case None
    with skip have "split_nonempty ''/d/'' ?t = [?t]"
      by (simp add: split_nonempty_None)
    then have "index_py (split_nonempty ''/d/'' ?t) 0 = Inr (seg @ ''/'' @ rest)"
      by (simp add: index_py_def)
    then show ?thesis
      using that [of "''/'' @ rest"] by simp
  next
    case (Some j)
    with skip have "find_py ''/d/'' ?t = Some (length seg + j)"
      by simp
    from split_nonempty_Some [OF this]
    obtain later where "split_nonempty ''/d/'' ?t = take (length seg + j) ?t # later"
      by simp
    then have "index_py (split_nonempty ''/d/'' ?t) 0 = Inr (seg @ take j (''/'' @ rest))"
      by (simp add: index_py_def)
    moreover have "take j (''/'' @ rest) = [] \<or> hd (take j (''/'' @ rest)) = CHR ''/''"
      by (cases j) auto
    ultimately show ?thesis
      using that by blast
  qed
  from piece have second: "index_py (split_nonempty ''/d/'' doc_url) 1 = Inr (seg @ w)"
    using parts by (auto simp: index_py_def split: if_splits)
  show ?thesis
    using second split_nonempty_first [OF seg w]
    by (simp add: extract_doc_id_def split_py_def)
qed

lemma extract_doc_id_missing:
  assumes "\<forall>p q. doc_url \<noteq> p @ ''/d/'' @ q"
  shows "extract_doc_id doc_url = Inl IndexError"
proof -
  from assms have "find_py ''/d/'' doc_url = None"
    by (rule iffD2 [OF find_py_None_iff])
  then show ?thesis
    by (simp add: extract_doc_id_def split_py_def index_py_def split_nonempty_None)
qed

text \<open>
  Claim C3. For a URL that contains \<open>/d/\<close>, with a \<open>/\<close> somewhere behind its first
  occurrence, the extraction returns the segment between that first \<open>/d/\<close> and the next
  \<open>/\<close>: when \<open>doc_url = pre @ ''/d/'' @ seg @ ''/'' @ rest\<close>, no occurrence of \<open>/d/\<close> starts
  before the one behind \<open>pre\<close>, and \<open>seg\<close> holds no \<open>/\<close>, the result is \<open>seg\<close>. For a URL
  without \<open>/d/\<close> the extraction fails with \<open>IndexError\<close>.
\<close>

theorem extract_doc_id_contract:
  "(doc_url = pre @ ''/d/'' @ seg @ ''/'' @ rest \<and>
    (\<forall>p q. doc_url = p @ ''/d/'' @ q \<longrightarrow> length pre \<le> length p) \<and>
    CHR ''/'' \<notin> set seg
      \<longrightarrow> extract_doc_id doc_url = Inr seg) \<and>
   ((\<forall>p q. doc_url \<noteq> p @ ''/d/'' @ q) \<longrightarrow> extract_doc_id doc_url = Inl IndexError)"
  using extract_doc_id_segment extract_doc_id_missing by blast

theorem extract_doc_id_contract_witness:
  "extract_doc_id ''https://docs.google.com/document/d/abc123/edit'' = Inr ''abc123'' \<and>
   extract_doc_id ''https://docs.google.com/document/abc123'' = Inl IndexError"
proof -
  let ?url = "''https://docs.google.com/document/d/abc123/edit''"
  let ?pre = "''https://docs.google.com/document''"
  let ?bad = "''https://docs.google.com/document/abc123''"
  have shape: "?url = ?pre @ ''/d/'' @ ''abc123'' @ ''/'' @ ''edit''"
    by simp
  have "find_py ''/d/'' ?url = Some (length ?pre)"
    by simp
  then have first: "\<forall>p q. ?url = p @ ''/d/'' @ q \<longrightarrow> length ?pre \<le> length p"
    using find_py_least by blast
  have seg: "CHR ''/'' \<notin> set ''abc123''"
    by simp
  have "find_py ''/d/'' ?bad = None"
    by simp
  then have none: "\<forall>p q. ?bad \<noteq> p @ ''/d/'' @ q"
    by (rule iffD1 [OF find_py_None_iff])
  from extract_doc_id_contract [of ?url ?pre "''abc123''" "''edit''"] shape first seg
  have "extract_doc_id ?url = Inr ''abc123''"
    by blast
  moreover from extract_doc_id_contract [of ?bad] none
  have "extract_doc_id ?bad = Inl IndexError"
    by blast
  ultimately show ?thesis
    by blast
qed

section \<open>Evaluation on the example account\<close>

lemma example_doc_ids:
  "extract_doc_id ''https://docs.google.com/document/d/doc1/edit'' = Inr ''doc1''"
  "extract_doc_id ''https://docs.google.com/document/d/doc2/edit'' = Inr ''doc2''"
  "extract_doc_id ''https://docs.google.com/document/d/doc3/edit'' = Inr ''doc3''"
  by (simp_all add: extract_doc_id_def split_py_def index_py_def split_nonempty.simps)

lemma example_folder_id: "get_instapaper_folder_id example_session ''Reading'' = Inr (Some 2)"
  by (simp add: example_defs get_instapaper_folder_id_def folder_matches_def)

lemma example_bookmarks:
  "get_instapaper_bookmarks example_session ''Reading'' =
   Inr (drop 1 (take 2 example_items) @ drop 3 example_items)"
  by (simp add: example_folder_id get_instapaper_bookmarks_def)
     (simp add: example_defs is_gdoc_bookmark_def in_py_def)

section \<open>Folder resolution\<close>

lemma scan_folders_first:
  "(\<exists>pre f post. folders = pre @ f # post \<and> (\<forall>g\<in>set pre. \<not> folder_matches folder_name g) \<and>
       folder_matches folder_name f \<and> scan_folders folders folder_name = f_folder_id f) \<or>
   ((\<forall>g\<in>set folders. \<not> folder_matches folder_name g) \<and> scan_folders folders folder_name = None)"
proof (induction folders)
  case Nil
  show ?case by simp
next
  case (Cons a folders)
  show ?case
  proof (cases "folder_matches folder_name a")
    case True
    then have "a # folders = [] @ a # folders \<and> (\<forall>g\<in>set []. \<not> folder_matches folder_name g) \<and>
        folder_matches folder_name a \<and> scan_folders (a # folders) folder_name = f_folder_id a"
      by simp
    then show ?thesis
      by blast
  next
    case False
    from Cons.IH show ?thesis
    proof
      assume "\<exists>pre f post. folders = pre @ f # post \<and> (\<forall>g\<in>set pre. \<not> folder_matches folder_name g) \<and>
         folder_matches folder_name f \<and> scan_folders folders folder_name = f_folder_id f"
      then obtain pre f post where h: "folders = pre @ f # post"
        "\<forall>g\<in>set pre. \<not> folder_matches folder_name g" "folder_matches folder_name f"
        "scan_folders folders folder_name = f_folder_id f"
        by blast
      with False have "a # folders = (a # pre) @ f # post \<and>
          (\<forall>g\<in>set (a # pre). \<not> folder_matches folder_name g) \<and>
          folder_matches folder_name f \<and> scan_folders (a # folders) folder_name = f_folder_id f"
        by simp
      then show ?thesis
        by blast
    next
      assume "(\<forall>g\<in>set folders. \<not> folder_matches folder_name g) \<and> scan_folders folders folder_name = None"
      with False show ?thesis
        by simp
    qed
  qed
qed

text \<open>
  Claim C5. For a folder listing that was fetched (status 200) and a requested name,
  \<open>get_instapaper_folder_id\<close> returns the \<open>folder_id\<close> of the first entry, in listing
  order, whose type is \<open>folder\<close> and whose title equals the name, whatever comes behind
  it; when no entry has that type and exactly that title it returns \<open>None\<close>.
\<close>

theorem folder_resolution_first_exact:
  assumes "status_code (folders_list session) = 200"
  shows "(\<exists>pre f post. json (folders_list session) = pre @ f # post \<and>
            (\<forall>g\<in>set pre. \<not> (f_type g = Some ''folder'' \<and> f_title g = Some folder_name)) \<and>
            f_type f = Some ''folder'' \<and> f_title f = Some folder_name \<and>
            get_instapaper_folder_id session folder_name = Inr (f_folder_id f)) \<or>
         ((\<forall>g\<in>set (json (folders_list session)).
              \<not> (f_type g = Some ''folder'' \<and> f_title g = Some folder_name)) \<and>
          get_instapaper_folder_id session folder_name = Inr None)"
  using assms scan_folders_first [of "json (folders_list session)" folder_name]
  unfolding get_instapaper_folder_id_def folder_matches_def Let_def
  by simp

theorem folder_resolution_first_exact_witness:
  "status_code (folders_list example_session) = 200 \<and>
   get_instapaper_folder_id example_session ''Reading'' = Inr (Some 2) \<and>
   get_instapaper_folder_id example_session ''Read'' = Inr None"
  using folder_resolution_first_exact [of example_session "''Reading''"]
    folder_resolution_first_exact [of example_session "''Read''"]
  by (simp add: example_defs get_instapaper_folder_id_def folder_matches_def)

section \<open>Bookmark listing\<close>

text \<open>
  Claim C4. When the folder is found and the listing is fetched (status 200),
  \<open>get_instapaper_bookmarks\<close> returns the entries of the response whose type is
  \<open>bookmark\<close> and whose url contains \<open>docs.google.com/document\<close>, those and no others, in
  the order of the response.
\<close>

theorem bookmarks_filter:
  assumes "get_instapaper_folder_id session folder_name = Inr (Some folder_id)"
    and "folder_id \<noteq> 0"
    and "status_code (bookmarks_list session folder_id 500) = 200"
  shows "get_instapaper_bookmarks session folder_name =
         Inr (filter (\<lambda>item. bm_type item = Some ''bookmark'' \<and>
                        (\<exists>u p q. bm_url item = Some u \<and> u = p @ ''docs.google.com/document'' @ q))
                (json (bookmarks_list session folder_id 500)))"
proof -
  have "is_gdoc_bookmark = (\<lambda>item. bm_type item = Some ''bookmark'' \<and>
          (\<exists>u p q. bm_url item = Some u \<and> u = p @ ''docs.google.com/document'' @ q))"
    by (rule ext) (auto simp: is_gdoc_bookmark_def in_py_iff split: option.splits)
  with assms show ?thesis
    by (simp add: get_instapaper_bookmarks_def)
qed

theorem bookmarks_filter_witness:
  "get_instapaper_folder_id example_session ''Reading'' = Inr (Some 2) \<and>
   status_code (bookmarks_list example_session 2 500) = 200 \<and>
   get_instapaper_bookmarks example_session ''Reading'' =
     Inr [\<lparr>bm_type = Some ''bookmark'',
            bm_url = Some ''https://docs.google.com/document/d/doc1/edit'',
            bm_title = Some ''May notes''\<rparr>,
          \<lparr>bm_type = Some ''bookmark'',
            bm_url = Some ''https://docs.google.com/document/d/doc2/edit'',
            bm_title = Some ''January notes''\<rparr>,
          \<lparr>bm_type = Some ''bookmark'',
            bm_url = Some ''https://docs.google.com/document/d/doc3/edit'',
            bm_title = Some ''January later''\<rparr>]"
proof -
  have status: "status_code (bookmarks_list example_session 2 500) = 200"
    by (simp add: example_defs)
  have nonzero: "(2::int) \<noteq> 0"
    by simp
  from bookmarks_filter [OF example_folder_id nonzero status] example_bookmarks
  show ?thesis
    using example_folder_id status by (simp add: example_defs)
qed

section \<open>Metadata\<close>

text \<open>
  Claim C8. When the identifier is extracted, the service is built and the remote
  service answers with metadata whose list of owners is not empty, \<open>fetch_google_doc_info\<close>
  prints nothing and returns the dictionary whose title is the remote \<open>name\<close>, whose owner
  is the \<open>displayName\<close> of the first owner, or \<open>Unknown\<close> when the owners or that name are
  missing, and whose modified date is the remote \<open>modifiedTime\<close>, or \<open>Unknown\<close> when it is
  missing. Every dictionary the function returns is of this form.
\<close>

theorem metadata_fields:
  "(extract_doc_id doc_url = Inr doc_id \<and> build creds = None \<and>
    files_get creds doc_id = Inr md \<and> md_owners md \<noteq> Some []
    \<longrightarrow> fetch_google_doc_info doc_url creds =
          ([], Inr (Some \<lparr>title = md_name md,
                           owner = (case md_owners md of
                                      None \<Rightarrow> ''Unknown''
                                    | Some os \<Rightarrow> (case displayName (hd os) of
                                                   None \<Rightarrow> ''Unknown'' | Some n \<Rightarrow> n)),
                           modified_date = (case md_modifiedTime md of
                                              None \<Rightarrow> ''Unknown'' | Some t \<Rightarrow> t)\<rparr>))) \<and>
   (fetch_google_doc_info doc_url creds = (out, Inr (Some info))
    \<longrightarrow> (\<exists>doc_id md. extract_doc_id doc_url = Inr doc_id \<and> files_get creds doc_id = Inr md \<and>
           title info = md_name md \<and>
           md_owners md \<noteq> Some [] \<and>
           owner info = (case md_owners md of
                           None \<Rightarrow> ''Unknown''
                         | Some os \<Rightarrow> (case displayName (hd os) of
                                        None \<Rightarrow> ''Unknown'' | Some n \<Rightarrow> n)) \<and>
           modified_date info = (case md_modifiedTime md of None \<Rightarrow> ''Unknown'' | Some t \<Rightarrow> t)))"
proof (intro conjI impI)
  assume "extract_doc_id doc_url = Inr doc_id \<and> build creds = None \<and>
    files_get creds doc_id = Inr md \<and> md_owners md \<noteq> Some []"
  then show "fetch_google_doc_info doc_url creds =
          ([], Inr (Some \<lparr>title = md_name md,
                           owner = (case md_owners md of
                                      None \<Rightarrow> ''Unknown''
                                    | Some os \<Rightarrow> (case displayName (hd os) of
                                                   None \<Rightarrow> ''Unknown'' | Some n \<Rightarrow> n)),
                           modified_date = (case md_modifiedTime md of
                                              None \<Rightarrow> ''Unknown'' | Some t \<Rightarrow> t)\<rparr>))"
    by (auto simp: fetch_google_doc_info_def fetch_metadata_def index_py_def hd_conv_nth
        split: option.splits)
next
  assume "fetch_google_doc_info doc_url creds = (out, Inr (Some info))"
  then show "\<exists>doc_id md. extract_doc_id doc_url = Inr doc_id \<and> files_get creds doc_id = Inr md \<and>
           title info = md_name md \<and>
           md_owners md \<noteq> Some [] \<and>
           owner info = (case md_owners md of
                           None \<Rightarrow> ''Unknown''
                         | Some os \<Rightarrow> (case displayName (hd os) of
                                        None \<Rightarrow> ''Unknown'' | Some n \<Rightarrow> n)) \<and>
           modified_date info = (case md_modifiedTime md of None \<Rightarrow> ''Unknown'' | Some t \<Rightarrow> t)"
    by (auto simp: fetch_google_doc_info_def fetch_metadata_def index_py_def hd_conv_nth
        split: sum.splits option.splits if_splits)
qed

theorem metadata_fields_witness:
  "fetch_google_doc_info ''https://docs.google.com/document/d/doc4/edit'' example_creds =
     ([], Inr (Some \<lparr>title = None, owner = ''Unknown'', modified_date = ''Unknown''\<rparr>)) \<and>
   fetch_google_doc_info ''https://docs.google.com/document/d/doc3/edit'' example_creds =
     ([], Inr (Some \<lparr>title = Some ''Later'', owner = ''Unknown'',
                      modified_date = ''2023-01-10T00:00:01''\<rparr>)) \<and>
   fetch_google_doc_info ''https://docs.google.com/document/d/doc1/edit'' example_creds =
     ([], Inr (Some \<lparr>title = Some ''May'', owner = ''Ann'', modified_date = ''2023-05-01''\<rparr>))"
proof -
  let ?md4 = "\<lparr>md_name = None, md_owners = Some [\<lparr>displayName = None\<rparr>], md_modifiedTime = None\<rparr>"
  let ?md3 = "\<lparr>md_name = Some ''Later'', md_owners = None,
               md_modifiedTime = Some ''2023-01-10T00:00:01''\<rparr>"
  let ?md1 = "\<lparr>md_name = Some ''May'', md_owners = Some [\<lparr>displayName = Some ''Ann''\<rparr>],
               md_modifiedTime = Some ''2023-05-01''\<rparr>"
  have built: "build example_creds = None"
    by (simp add: example_creds_def)
  have id4: "extract_doc_id ''https://docs.google.com/document/d/doc4/edit'' = Inr ''doc4''"
    by code_simp
  have get4: "files_get example_creds ''doc4'' = Inr ?md4"
    by (simp add: example_creds_def example_files_def)
  have get3: "files_get example_creds ''doc3'' = Inr ?md3"
    by (simp add: example_creds_def example_files_def)
  have get1: "files_get example_creds ''doc1'' = Inr ?md1"
    by (simp add: example_creds_def example_files_def)
  from metadata_fields
      [of "''https://docs.google.com/document/d/doc4/edit''" "''doc4''" example_creds ?md4]
    id4 built get4
  have "fetch_google_doc_info ''https://docs.google.com/document/d/doc4/edit'' example_creds =
     ([], Inr (Some \<lparr>title = None, owner = ''Unknown'', modified_date = ''Unknown''\<rparr>))"
    by simp
  moreover from metadata_fields
      [of "''https://docs.google.com/document/d/doc3/edit''" "''doc3''" example_creds ?md3]
    example_doc_ids(3) built get3
  have "fetch_google_doc_info ''https://docs.google.com/document/d/doc3/edit'' example_creds =
     ([], Inr (Some \<lparr>title = Some ''Later'', owner = ''Unknown'',
                      modified_date = ''2023-01-10T00:00:01''\<rparr>))"
    by simp
  moreover from metadata_fields
      [of "''https://docs.google.com/document/d/doc1/edit''" "''doc1''" example_creds ?md1]
    example_doc_ids(1) built get1
  have "fetch_google_doc_info ''https://docs.google.com/document/d/doc1/edit'' example_creds =
     ([], Inr (Some \<lparr>title = Some ''May'', owner = ''Ann'', modified_date = ''2023-05-01''\<rparr>))"
    by simp
  ultimately show ?thesis
    by blast
qed

text \<open>
  Claim C10. For a URL without \<open>/d/\<close>, \<open>fetch_google_doc_info\<close> is left by an
  \<open>IndexError\<close> and nothing is printed: the extraction stands before the \<open>try\<close>. When the
  function returns \<open>None\<close>, the extraction has succeeded, the service was built, and the
  failure came from the \<open>try\<close> block and was printed.
\<close>

theorem fetch_without_d_raises:
  "((\<forall>p q. doc_url \<noteq> p @ ''/d/'' @ q) \<longrightarrow>
      fetch_google_doc_info doc_url creds = ([], Inl IndexError)) \<and>
   (snd (fetch_google_doc_info doc_url creds) = Inr None \<longrightarrow>
      (\<exists>doc_id e. extract_doc_id doc_url = Inr doc_id \<and> build creds = None \<and>
         fetch_metadata doc_id creds = Inl e \<and>
         fst (fetch_google_doc_info doc_url creds) = [''Error retrieving metadata: '' @ error_text e]))"
proof
  show "(\<forall>p q. doc_url \<noteq> p @ ''/d/'' @ q) \<longrightarrow>
      fetch_google_doc_info doc_url creds = ([], Inl IndexError)"
    by (simp add: fetch_google_doc_info_def extract_doc_id_missing)
next
  show "snd (fetch_google_doc_info doc_url creds) = Inr None \<longrightarrow>
      (\<exists>doc_id e. extract_doc_id doc_url = Inr doc_id \<and> build creds = None \<and>
         fetch_metadata doc_id creds = Inl e \<and>
         fst (fetch_google_doc_info doc_url creds) = [''Error retrieving metadata: '' @ error_text e])"
    by (auto simp: fetch_google_doc_info_def split: sum.splits option.splits)
qed

theorem fetch_without_d_raises_witness:
  "fetch_google_doc_info ''https://docs.google.com/document/abc123'' example_creds =
     ([], Inl IndexError) \<and>
   fetch_google_doc_info ''https://docs.google.com/document/d/doc2/edit'' failing_creds =
     ([''Error retrieving metadata: File not found''], Inr None)"
proof -
  let ?bad = "''https://docs.google.com/document/abc123''"
  have "find_py ''/d/'' ?bad = None"
    by simp
  then have none: "\<forall>p q. ?bad \<noteq> p @ ''/d/'' @ q"
    by (rule iffD1 [OF find_py_None_iff])
  have run: "fetch_google_doc_info ''https://docs.google.com/document/d/doc2/edit'' failing_creds =
     ([''Error retrieving metadata: File not found''], Inr None)"
    by (simp add: fetch_google_doc_info_def example_doc_ids fetch_metadata_def example_defs)
  from fetch_without_d_raises [of ?bad example_creds] none
  have "fetch_google_doc_info ?bad example_creds = ([], Inl IndexError)"
    by blast
  moreover from fetch_without_d_raises
      [of "''https://docs.google.com/document/d/doc2/edit''" failing_creds] run
  have "fetch_metadata ''doc2'' failing_creds = Inl (Failure ''File not found'')"
    by (simp add: example_doc_ids fetch_metadata_def example_defs)
  ultimately show ?thesis
    using run by simp
qed

section \<open>Reorganize mode: the target name\<close>



section \<open>Reorganize mode: the new bookmarks\<close>

lemma collect_docs_info_adds_nothing:
  "BookmarkAdd data \<in> set (fst (collect_docs_info creds bookmarks evs docs_info)) \<Longrightarrow>
   BookmarkAdd data \<in> set evs"
proof (induction bookmarks arbitrary: evs docs_info)
  case Nil
  then show ?case by simp
next
  case (Cons bookmark bookmarks)
  show ?case
  proof (cases "bm_url bookmark")
    case None
    with Cons.prems show ?thesis by simp
  next
    case (Some u)
    obtain out r where f: "fetch_google_doc_info u creds = (out, r)"
      by (cases "fetch_google_doc_info u creds")
    show ?thesis
    proof (cases r)
      case (Inl e)
      with Cons.prems Some f show ?thesis by auto
    next
      case (Inr fetched)
      show ?thesis
      proof (cases "bm_title bookmark")
        case None
        with Cons.prems Some f Inr show ?thesis by auto
      next
        case t: (Some t)
        show ?thesis
        proof (cases fetched)
          case None
          with Cons.prems Some f Inr t show ?thesis by auto
        next
          case info: (Some info)
          with Cons.prems Some f Inr t
          have "BookmarkAdd data \<in> set (evs @ map Print out @
                  [Print (''Got '' @ t @ '' - '' @ owner info @ '' '' @ take 10 (modified_date info))])"
            by (auto dest!: Cons.IH)
          then show ?thesis by auto
        qed
      qed
    qed
  qed
qed

lemma save_docs_adds:
  "BookmarkAdd data \<in> set (fst (save_docs session new_folder_id docs evs)) \<Longrightarrow>
   BookmarkAdd data \<in> set evs \<or>
   (\<exists>doc\<in>set docs. data = \<lparr>data_url = url doc, data_title = bookmark_title doc,
       data_description = bookmark_description doc, data_content = bookmark_description doc,
       data_folder_id = new_folder_id\<rparr>)"
proof (induction docs arbitrary: evs)
  case Nil
  then show ?case by simp
next
  case (Cons doc docs)
  let ?evs1 = "evs @ [Print (''Adding '' @ take 10 (modified_date doc) @ '' - '' @ str_opt (title doc))]"
  let ?data = "\<lparr>data_url = url doc, data_title = bookmark_title doc,
       data_description = bookmark_description doc, data_content = bookmark_description doc,
       data_folder_id = new_folder_id\<rparr>"
  show ?case
  proof (cases "status_code (bookmarks_add session ?data) = 200")
    case False
    with Cons.prems show ?thesis
      by (auto simp: save_instapaper_bookmark_def Let_def)
  next
    case True
    with Cons.prems
    have "BookmarkAdd data \<in> set (fst (save_docs session new_folder_id docs
              (?evs1 @ [BookmarkAdd ?data] @ [Sleep 1])))"
      by (simp add: save_instapaper_bookmark_def Let_def)
    from Cons.IH [OF this] show ?thesis
      by auto
  qed
qed

lemma resolve_new_folder_adds_nothing:
  "BookmarkAdd data \<notin> set (fst (resolve_new_folder session new_folder_name))"
  by (auto simp: resolve_new_folder_def create_instapaper_folder_def Let_def split: sum.splits)

text \<open>
  Claim C7. Every bookmark that a run of the reorganize script adds belongs to a
  document \<open>doc\<close> of the aggregated list: its url is the document's, its title is
  \<open>{title} - {owner} - {modified_date[:10]}\<close> and its description is
  \<open>{title} - {owner}<br>\n{modified_date[:10]}<br>\n<a href="{url}">{url}</a><br>\<close>.
\<close>

theorem republished_title_description:
  assumes "BookmarkAdd data \<in> set (fst (main_reorganize a uuid4_str login))"
  shows "\<exists>session creds bookmarks evs0 evs1 docs_info doc.
           login = Inr (session, creds) \<and>
           get_instapaper_bookmarks session (arg_folder_name a) = Inr bookmarks \<and>
           collect_docs_info creds bookmarks evs0 [] = (evs1, Inr docs_info) \<and>
           doc \<in> set docs_info \<and>
           data_url data = url doc \<and>
           data_title data =
             str_opt (title doc) @ '' - '' @ owner doc @ '' - '' @ take 10 (modified_date doc) \<and>
           data_description data =
             str_opt (title doc) @ '' - '' @ owner doc @ ''<br>'' @ [CHR 0x0A] @
             take 10 (modified_date doc) @ ''<br>'' @ [CHR 0x0A] @
             ''<a href='' @ [CHR 0x22] @ url doc @ [CHR 0x22] @ ''>'' @ url doc @ ''</a><br>''"
proof -
  let ?evs0 = "[Print (''Scanning folder: '' @ arg_folder_name a),
                Print (''New folder name: '' @ choose_new_folder_name a uuid4_str)]"
  from assms obtain session creds where login: "login = Inr (session, creds)"
    by (cases login) (auto simp: main_reorganize_def Let_def)
  from assms login obtain bookmarks
    where bms: "get_instapaper_bookmarks session (arg_folder_name a) = Inr bookmarks"
    by (cases "get_instapaper_bookmarks session (arg_folder_name a)")
       (auto simp: main_reorganize_def Let_def)
  obtain evs1 r1 where c: "collect_docs_info creds bookmarks ?evs0 [] = (evs1, r1)"
    by (cases "collect_docs_info creds bookmarks ?evs0 []")
  have no1: "BookmarkAdd data \<notin> set evs1"
    using collect_docs_info_adds_nothing [of data creds bookmarks ?evs0 "[]"] c by auto
  from assms login bms c no1 obtain docs_info where r1: "r1 = Inr docs_info"
    by (cases r1) (auto simp: main_reorganize_def Let_def)
  obtain evs2 r2 where rs: "resolve_new_folder session (choose_new_folder_name a uuid4_str) = (evs2, r2)"
    by (cases "resolve_new_folder session (choose_new_folder_name a uuid4_str)")
  have no2: "BookmarkAdd data \<notin> set evs2"
    using resolve_new_folder_adds_nothing [of data session "choose_new_folder_name a uuid4_str"] rs
    by simp
  from assms login bms c r1 rs no1 no2 obtain new_folder_id where r2: "r2 = Inr new_folder_id"
    by (cases r2) (auto simp: main_reorganize_def Let_def)
  from assms login bms c r1 rs r2
  have "BookmarkAdd data \<in> set (fst (save_docs session new_folder_id (sort_docs_info docs_info)
            (evs1 @ evs2)))"
    by (simp add: main_reorganize_def Let_def)
  from save_docs_adds [OF this] no1 no2
  obtain doc where "doc \<in> set (sort_docs_info docs_info)"
    and d: "data = \<lparr>data_url = url doc, data_title = bookmark_title doc,
       data_description = bookmark_description doc, data_content = bookmark_description doc,
       data_folder_id = new_folder_id\<rparr>"
    by auto
  then have "doc \<in> set docs_info"
    by (simp add: sort_docs_info_def)
  with login bms c r1 d show ?thesis
    unfolding bookmark_title_def bookmark_description_def
    by (intro exI [of _ session] exI [of _ creds] exI [of _ bookmarks] exI [of _ ?evs0]
        exI [of _ evs1] exI [of _ docs_info] exI [of _ doc]) simp
qed

theorem republished_title_description_witness:
  "BookmarkAdd
     \<lparr>data_url = ''https://docs.google.com/document/d/doc2/edit'',
      data_title = ''Jan - Bob - 2023-01-10'',
      data_description = ''Jan - Bob<br>'' @ [CHR 0x0A] @ ''2023-01-10<br>'' @ [CHR 0x0A] @
        ''<a href='' @ [CHR 0x22] @ ''https://docs.google.com/document/d/doc2/edit'' @ [CHR 0x22] @
        ''>https://docs.google.com/document/d/doc2/edit</a><br>'',
      data_content = ''Jan - Bob<br>'' @ [CHR 0x0A] @ ''2023-01-10<br>'' @ [CHR 0x0A] @
        ''<a href='' @ [CHR 0x22] @ ''https://docs.google.com/document/d/doc2/edit'' @ [CHR 0x22] @
        ''>https://docs.google.com/document/d/doc2/edit</a><br>'',
      data_folder_id = 7\<rparr>
   \<in> set (fst (main_reorganize example_args example_uuid (Inr (example_session, example_creds))))"
  (is "BookmarkAdd ?data \<in> set (fst ?run)")
proof -
  have "BookmarkAdd ?data \<in> set (fst ?run)"
    by code_simp
  from republished_title_description [OF this] this show ?thesis
    by simp
qed

section \<open>Reorganize mode: the order\<close>

lemma added_bookmarks_append:
  "added_bookmarks (xs @ ys) = added_bookmarks xs @ added_bookmarks ys"
  by (induction xs rule: added_bookmarks.induct) simp_all

lemma added_bookmarks_Print: "added_bookmarks (map Print out) = []"
  by (induction out) simp_all

lemma collect_docs_info_added:
  "added_bookmarks (fst (collect_docs_info creds bookmarks evs docs_info)) = added_bookmarks evs"
  by (induction bookmarks arbitrary: evs docs_info)
     (auto simp: added_bookmarks_append added_bookmarks_Print
        split: option.splits sum.splits prod.splits)

lemma collect_docs_info_urls:
  "collect_docs_info creds bookmarks evs docs_info = (evs', Inr docs) \<Longrightarrow>
   map url docs = map url docs_info @ map (\<lambda>b. the (bm_url b)) bookmarks"
  by (induction bookmarks arbitrary: evs docs_info)
     (auto simp: doc_info.defs split: option.splits sum.splits prod.splits)

lemma save_docs_added:
  "save_docs session new_folder_id docs evs = (evs', Inr ()) \<Longrightarrow>
   added_bookmarks evs' = added_bookmarks evs @
     map (\<lambda>doc. \<lparr>data_url = url doc, data_title = bookmark_title doc,
            data_description = bookmark_description doc,
            data_content = bookmark_description doc, data_folder_id = new_folder_id\<rparr>) docs"
  by (induction docs arbitrary: evs)
     (auto simp: added_bookmarks_append save_instapaper_bookmark_def Let_def split: if_splits)

lemma resolve_new_folder_added:
  "added_bookmarks (fst (resolve_new_folder session new_folder_name)) = []"
  by (auto simp: resolve_new_folder_def create_instapaper_folder_def Let_def split: sum.splits)

lemma collect_docs_info_result:
  "snd (collect_docs_info creds bookmarks evs docs_info) =
   snd (collect_docs_info creds bookmarks [] docs_info)"
proof (induction bookmarks arbitrary: evs docs_info)
  case Nil
  show ?case by simp
next
  case (Cons bookmark bookmarks)
  show ?case
  proof (cases "bm_url bookmark")
    case None
    then show ?thesis by simp
  next
    case (Some u)
    obtain out r where f: "fetch_google_doc_info u creds = (out, r)"
      by (cases "fetch_google_doc_info u creds")
    show ?thesis
    proof (cases r)
      case (Inl e)
      with Some f show ?thesis by simp
    next
      case (Inr fetched)
      show ?thesis
      proof (cases "bm_title bookmark")
        case None
        with Some f Inr show ?thesis by simp
      next
        case t: (Some t)
        show ?thesis
        proof (cases fetched)
          case None
          with Some f Inr t show ?thesis by simp
        next
          case info: (Some info)
          let ?line = "Print (''Got '' @ t @ '' - '' @ owner info @ '' '' @ take 10 (modified_date info))"
          let ?docs = "docs_info @ [doc_info.extend info \<lparr>url = u\<rparr>]"
          have "snd (collect_docs_info creds bookmarks (evs @ map Print out @ [?line]) ?docs) =
                snd (collect_docs_info creds bookmarks [] ?docs)"
            by (rule Cons.IH)
          moreover have "snd (collect_docs_info creds bookmarks ([] @ map Print out @ [?line]) ?docs) =
                snd (collect_docs_info creds bookmarks [] ?docs)"
            by (rule Cons.IH)
          ultimately show ?thesis
            using Some f Inr t info by simp
        qed
      qed
    qed
  qed
qed

lemma save_docs_added_prefix:
  "\<exists>n\<le>length docs.
     added_bookmarks (fst (save_docs session new_folder_id docs evs)) =
       added_bookmarks evs @
       map (\<lambda>doc. \<lparr>data_url = url doc, data_title = bookmark_title doc,
              data_description = bookmark_description doc,
              data_content = bookmark_description doc, data_folder_id = new_folder_id\<rparr>)
         (take n docs) \<and>
     (snd (save_docs session new_folder_id docs evs) = Inr () \<longrightarrow> n = length docs)"
proof (induction docs arbitrary: evs)
  case Nil
  show ?case by simp
next
  case (Cons doc docs)
  let ?req = "\<lambda>doc. \<lparr>data_url = url doc, data_title = bookmark_title doc,
              data_description = bookmark_description doc,
              data_content = bookmark_description doc, data_folder_id = new_folder_id\<rparr>"
  let ?evs1 = "evs @ [Print (''Adding '' @ take 10 (modified_date doc) @ '' - '' @ str_opt (title doc))]"
  show ?case
  proof (cases "status_code (bookmarks_add session (?req doc)) = 200")
    case False
    then have "added_bookmarks (fst (save_docs session new_folder_id (doc # docs) evs)) =
        added_bookmarks evs @ map ?req (take 1 (doc # docs))"
      and "snd (save_docs session new_folder_id (doc # docs) evs) \<noteq> Inr ()"
      by (simp_all add: save_instapaper_bookmark_def Let_def added_bookmarks_append)
    then show ?thesis
      by (intro exI [of _ 1]) simp
  next
    case True
    let ?evs2 = "?evs1 @ [BookmarkAdd (?req doc)] @ [Sleep 1]"
    from True have step: "save_docs session new_folder_id (doc # docs) evs =
        save_docs session new_folder_id docs ?evs2"
      by (simp add: save_instapaper_bookmark_def Let_def)
    from Cons.IH [of ?evs2] obtain n where n: "n \<le> length docs"
      "added_bookmarks (fst (save_docs session new_folder_id docs ?evs2)) =
         added_bookmarks ?evs2 @ map ?req (take n docs)"
      "snd (save_docs session new_folder_id docs ?evs2) = Inr () \<longrightarrow> n = length docs"
      by blast
    have "added_bookmarks ?evs2 = added_bookmarks evs @ [?req doc]"
      by (simp add: added_bookmarks_append)
    with n step show ?thesis
      by (intro exI [of _ "Suc n"]) simp
  qed
qed

lemma sort_docs_info_properties:
  "mset (sort_docs_info docs_info) = mset docs_info \<and>
   sorted (map modified_date (sort_docs_info docs_info)) \<and>
   (\<forall>k. filter (\<lambda>doc. modified_date doc = k) (sort_docs_info docs_info) =
        filter (\<lambda>doc. modified_date doc = k) docs_info) \<and>
   (\<forall>i j. i < length (sort_docs_info docs_info) \<and> j < length (sort_docs_info docs_info) \<and>
        modified_date (sort_docs_info docs_info ! i) < modified_date (sort_docs_info docs_info ! j)
        \<longrightarrow> i < j)"
proof -
  let ?out = "sort_docs_info docs_info"
  have s: "sorted (map modified_date ?out)"
    by (simp add: sort_docs_info_def)
  have "\<forall>i j. i < length ?out \<and> j < length ?out \<and>
        modified_date (?out ! i) < modified_date (?out ! j) \<longrightarrow> i < j"
  proof (intro allI impI, elim conjE)
    fix i j
    assume i: "i < length ?out" and j: "j < length ?out"
      and lt: "modified_date (?out ! i) < modified_date (?out ! j)"
    show "i < j"
    proof (rule ccontr)
      assume "\<not> i < j"
      then have "j \<le> i"
        by simp
      with s i have "map modified_date ?out ! j \<le> map modified_date ?out ! i"
        by (intro sorted_nth_mono) simp_all
      with i j lt show False
        by simp
    qed
  qed
  moreover have "\<forall>k. filter (\<lambda>doc. modified_date doc = k) ?out =
        filter (\<lambda>doc. modified_date doc = k) docs_info"
    by (simp add: sort_docs_info_def sort_key_stable)
  moreover have "mset ?out = mset docs_info"
    by (simp add: sort_docs_info_def)
  ultimately show ?thesis
    using s by blast
qed

text \<open>
  Claim C1. Let the adapter return \<open>bookmarks\<close> and let step 4 aggregate \<open>docs_info\<close> from
  them. Then \<open>docs_info\<close> holds one document for every bookmark, in the order of the
  listing, and the bookmarks a run of the reorganize script adds are those of a list
  \<open>out\<close>, in its order (all of them when the run ends without an exception, the first
  \<open>n\<close> of them when a request fails). \<open>out\<close> is a rearrangement of \<open>docs_info\<close>, sorted
  ascending by \<open>modified_date\<close> in the lexicographic order of strings, in which the
  documents of any one date stand in the order they have in \<open>docs_info\<close>, and a document
  with a strictly smaller date stands before one with a larger date.
\<close>

theorem reorganize_sorted_stable:
  assumes bms: "get_instapaper_bookmarks session (arg_folder_name a) = Inr bookmarks"
    and agg: "snd (collect_docs_info creds bookmarks [] []) = Inr docs_info"
    and run: "main_reorganize a uuid4_str (Inr (session, creds)) = (evs, r)"
  shows "map url docs_info = map (\<lambda>b. the (bm_url b)) bookmarks \<and>
         (\<exists>out new_folder_id n.
            mset out = mset docs_info \<and>
            sorted (map modified_date out) \<and>
            (\<forall>k. filter (\<lambda>doc. modified_date doc = k) out =
                 filter (\<lambda>doc. modified_date doc = k) docs_info) \<and>
            (\<forall>i j. i < length out \<and> j < length out \<and>
                 modified_date (out ! i) < modified_date (out ! j) \<longrightarrow> i < j) \<and>
            added_bookmarks evs =
              map (\<lambda>doc. \<lparr>data_url = url doc,
                     data_title = str_opt (title doc) @ '' - '' @ owner doc @ '' - '' @
                                  take 10 (modified_date doc),
                     data_description = bookmark_description doc,
                     data_content = bookmark_description doc,
                     data_folder_id = new_folder_id\<rparr>) (take n out) \<and>
            n \<le> length out \<and>
            (r = Inr () \<longrightarrow> n = length out))"
proof -
  let ?evs0 = "[Print (''Scanning folder: '' @ arg_folder_name a),
                Print (''New folder name: '' @ choose_new_folder_name a uuid4_str)]"
  let ?name = "choose_new_folder_name a uuid4_str"
  let ?out = "sort_docs_info docs_info"
  obtain evs1 r1 where c: "collect_docs_info creds bookmarks ?evs0 [] = (evs1, r1)"
    by (cases "collect_docs_info creds bookmarks ?evs0 []")
  with agg collect_docs_info_result [of creds bookmarks ?evs0 "[]"]
  have r1: "r1 = Inr docs_info"
    by simp
  have urls: "map url docs_info = map (\<lambda>b. the (bm_url b)) bookmarks"
    using collect_docs_info_urls [of creds bookmarks ?evs0 "[]" evs1 docs_info] c r1 by simp
  have no1: "added_bookmarks evs1 = []"
    using collect_docs_info_added [of creds bookmarks ?evs0 "[]"] c by simp
  obtain evs2 r2 where rs: "resolve_new_folder session ?name = (evs2, r2)"
    by (cases "resolve_new_folder session ?name")
  have no2: "added_bookmarks evs2 = []"
    using resolve_new_folder_added [of session ?name] rs by simp
  have "\<exists>new_folder_id n.
          added_bookmarks evs =
            map (\<lambda>doc. \<lparr>data_url = url doc, data_title = bookmark_title doc,
                   data_description = bookmark_description doc,
                   data_content = bookmark_description doc,
                   data_folder_id = new_folder_id\<rparr>) (take n ?out) \<and>
          n \<le> length ?out \<and> (r = Inr () \<longrightarrow> n = length ?out)"
  proof (cases r2)
    case (Inl e)
    with run bms c r1 rs have "evs = evs1 @ evs2" "r = Inl e"
      by (simp_all add: main_reorganize_def Let_def)
    with no1 no2 show ?thesis
      by (intro exI [of _ 0]) (simp add: added_bookmarks_append)
  next
    case (Inr new_folder_id)
    with run bms c r1 rs
    have s: "save_docs session new_folder_id ?out (evs1 @ evs2) = (evs, r)"
      by (simp add: main_reorganize_def Let_def)
    from save_docs_added_prefix [of ?out session new_folder_id "evs1 @ evs2"] s no1 no2
    show ?thesis
      by (auto simp: added_bookmarks_append)
  qed
  then obtain new_folder_id n where adds:
    "added_bookmarks evs =
       map (\<lambda>doc. \<lparr>data_url = url doc, data_title = bookmark_title doc,
              data_description = bookmark_description doc,
              data_content = bookmark_description doc,
              data_folder_id = new_folder_id\<rparr>) (take n ?out)"
    "n \<le> length ?out" "r = Inr () \<longrightarrow> n = length ?out"
    by blast
  from adds(1) have adds': "added_bookmarks evs =
       map (\<lambda>doc. \<lparr>data_url = url doc,
              data_title = str_opt (title doc) @ '' - '' @ owner doc @ '' - '' @
                           take 10 (modified_date doc),
              data_description = bookmark_description doc,
              data_content = bookmark_description doc,
              data_folder_id = new_folder_id\<rparr>) (take n ?out)"
    by (simp add: bookmark_title_def)
  from sort_docs_info_properties [of docs_info] adds' adds(2,3) urls show ?thesis
    by (intro conjI exI [of _ ?out] exI [of _ new_folder_id] exI [of _ n]) blast+
qed

theorem reorganize_sorted_stable_witness:
  "get_instapaper_bookmarks tie_session (arg_folder_name example_args) = Inr tie_bookmarks \<and>
   snd (collect_docs_info example_creds tie_bookmarks [] []) = Inr tie_docs \<and>
   map modified_date tie_docs =
     [''2023-05-01'', ''2023-01-10'', ''2023-01-10T00:00:01'', ''2023-05-01''] \<and>
   map data_url (added_bookmarks
       (fst (main_reorganize example_args example_uuid (Inr (tie_session, example_creds))))) =
     [''https://docs.google.com/document/d/doc2/edit'',
      ''https://docs.google.com/document/d/doc3/edit'',
      ''https://docs.google.com/document/d/doc1/edit'',
      ''https://docs.google.com/document/d/doc5/edit''] \<and>
   snd (main_reorganize example_args example_uuid (Inr (tie_session, example_creds))) = Inr ()"
proof -
  let ?run = "main_reorganize example_args example_uuid (Inr (tie_session, example_creds))"
  have bms: "get_instapaper_bookmarks tie_session (arg_folder_name example_args) = Inr tie_bookmarks"
    by code_simp
  have agg: "snd (collect_docs_info example_creds tie_bookmarks [] []) = Inr tie_docs"
    by code_simp
  have run: "?run = (fst ?run, snd ?run)"
    by simp
  have dates: "map modified_date tie_docs =
     [''2023-05-01'', ''2023-01-10'', ''2023-01-10T00:00:01'', ''2023-05-01'']"
    by (simp add: tie_docs_def)
  have adds: "map data_url (added_bookmarks (fst ?run)) =
     [''https://docs.google.com/document/d/doc2/edit'',
      ''https://docs.google.com/document/d/doc3/edit'',
      ''https://docs.google.com/document/d/doc1/edit'',
      ''https://docs.google.com/document/d/doc5/edit'']"
    by code_simp
  have complete: "snd ?run = Inr ()"
    by code_simp
  from reorganize_sorted_stable [OF bms agg run] bms agg dates adds complete show ?thesis
    by simp
qed

section \<open>Download mode: one failed export\<close>

lemma download_chunks_returns:
  "chunk_final (next_chunk creds doc_id (n + k)) \<Longrightarrow> download_chunks creds doc_id n out \<noteq> None"
proof (induction k arbitrary: n out)
  case 0
  show ?case
  proof (cases "next_chunk creds doc_id n")
    case (Inl e)
    then show ?thesis
      by (subst download_chunks.simps) simp
  next
    case (Inr pd)
    obtain progress d where pd: "pd = (progress, d)"
      by (cases pd)
    with 0 Inr have d
      by (simp add: chunk_final_def)
    with Inr pd show ?thesis
      by (subst download_chunks.simps) simp
  qed
next
  case (Suc k)
  then have "chunk_final (next_chunk creds doc_id (Suc n + k))"
    by simp
  note ih = Suc.IH [OF this]
  show ?case
  proof (cases "next_chunk creds doc_id n")
    case (Inl e)
    then show ?thesis
      by (subst download_chunks.simps) simp
  next
    case (Inr pd)
    obtain progress d where pd: "pd = (progress, d)"
      by (cases pd)
    show ?thesis
    proof (cases d)
      case True
      with Inr pd show ?thesis
        by (subst download_chunks.simps) simp
    next
      case False
      with Inr pd ih show ?thesis
        by (subst download_chunks.simps) simp
    qed
  qed
qed

lemma download_gdoc_returns:
  assumes "\<forall>doc_id. extract_doc_id doc_url = Inr doc_id \<longrightarrow>
      (\<exists>n. chunk_final (next_chunk creds doc_id n))"
  shows "download_gdoc doc_url t save_folder creds \<noteq> None"
proof (cases "extract_doc_id doc_url")
  case (Inl e)
  then show ?thesis by (simp add: download_gdoc_def)
next
  case (Inr doc_id)
  with assms obtain n where "chunk_final (next_chunk creds doc_id (0 + n))"
    by auto
  from download_chunks_returns [OF this, of "[]"] Inr show ?thesis
    by (auto simp: download_gdoc_def Let_def split: option.splits)
qed

lemma download_gdoc_reports:
  "download_gdoc doc_url t save_folder creds = Some (printed, None) \<Longrightarrow>
   \<exists>e. printed \<noteq> [] \<and> last printed = ''Error downloading Google Doc: '' @ error_text e"
  by (auto simp: download_gdoc_def download_failed_def Let_def split: sum.splits option.splits
      intro: exI [of _ "Failure []"]; blast)

lemma download_bookmarks_all:
  assumes "\<forall>b\<in>set bookmarks. bm_title b \<noteq> None \<and> bm_url b \<noteq> None \<and>
             download_gdoc (the (bm_url b)) (the (bm_title b)) save_folder creds \<noteq> None"
  shows "download_bookmarks bookmarks save_folder creds out =
         Some (out @ concat (map (\<lambda>b. (''Got '' @ the (bm_title b)) #
                   fst (the (download_gdoc (the (bm_url b)) (the (bm_title b)) save_folder creds)))
                 bookmarks), Inr ())"
  using assms
proof (induction bookmarks arbitrary: out)
  case Nil
  show ?case by simp
next
  case (Cons b bookmarks)
  from Cons.prems obtain t u printed returned where
    "bm_title b = Some t" "bm_url b = Some u"
    "download_gdoc u t save_folder creds = Some (printed, returned)"
    by fastforce
  moreover from Cons.prems have "\<forall>b\<in>set bookmarks. bm_title b \<noteq> None \<and> bm_url b \<noteq> None \<and>
             download_gdoc (the (bm_url b)) (the (bm_title b)) save_folder creds \<noteq> None"
    by simp
  ultimately show ?case
    by (simp add: Cons.IH)
qed

lemma download_chunks_skip:
  "(\<forall>k<length ps. next_chunk creds doc_id (m + k) = Inr (ps ! k, False)) \<Longrightarrow>
   download_chunks creds doc_id m out =
   download_chunks creds doc_id (m + length ps)
     (out @ map (\<lambda>p. ''Download progress: '' @ str_nat p @ ''%'') ps)"
proof (induction ps arbitrary: m out)
  case Nil
  show ?case by simp
next
  case (Cons p ps)
  from Cons.prems have first: "next_chunk creds doc_id m = Inr (p, False)"
    by fastforce
  have "\<forall>k<length ps. next_chunk creds doc_id (Suc m + k) = Inr (ps ! k, False)"
  proof (intro allI impI)
    fix k assume "k < length ps"
    then have "Suc k < length (p # ps)"
      by simp
    with Cons.prems have "next_chunk creds doc_id (m + Suc k) = Inr ((p # ps) ! Suc k, False)"
      by blast
    then show "next_chunk creds doc_id (Suc m + k) = Inr (ps ! k, False)"
      by simp
  qed
  from Cons.IH [OF this, of "out @ [''Download progress: '' @ str_nat p @ ''%'']"] first
  show ?case
    by (subst download_chunks.simps) simp
qed

lemma download_chunks_raises:
  assumes "\<forall>k<length ps. next_chunk creds doc_id k = Inr (ps ! k, False)"
    and "next_chunk creds doc_id (length ps) = Inl e"
  shows "download_chunks creds doc_id 0 [] =
         Some (map (\<lambda>p. ''Download progress: '' @ str_nat p @ ''%'') ps, Some e)"
proof -
  from assms(1) have "download_chunks creds doc_id 0 [] =
      download_chunks creds doc_id (0 + length ps)
        ([] @ map (\<lambda>p. ''Download progress: '' @ str_nat p @ ''%'') ps)"
    by (intro download_chunks_skip) simp
  also from assms(2) have "\<dots> = Some (map (\<lambda>p. ''Download progress: '' @ str_nat p @ ''%'') ps, Some e)"
    by (subst download_chunks.simps) simp
  finally show ?thesis .
qed

lemma download_chunks_done:
  assumes "\<forall>k<length ps. next_chunk creds doc_id k = Inr (ps ! k, False)"
    and "next_chunk creds doc_id (length ps) = Inr (p, True)"
  shows "download_chunks creds doc_id 0 [] =
         Some (map (\<lambda>p. ''Download progress: '' @ str_nat p @ ''%'') (ps @ [p]), None)"
proof -
  from assms(1) have "download_chunks creds doc_id 0 [] =
      download_chunks creds doc_id (0 + length ps)
        ([] @ map (\<lambda>p. ''Download progress: '' @ str_nat p @ ''%'') ps)"
    by (intro download_chunks_skip) simp
  also from assms(2)
  have "\<dots> = Some (map (\<lambda>p. ''Download progress: '' @ str_nat p @ ''%'') (ps @ [p]), None)"
    by (subst download_chunks.simps) simp
  finally show ?thesis .
qed

text \<open>
  Claim C6. Whatever fails while one document is exported is caught and reported:
  when the extraction of the identifier, the construction of the service, the opening of
  the output file or a call of \<open>next_chunk\<close> raises \<open>e\<close>, \<open>download_gdoc\<close> prints
  \<open>Error downloading Google Doc:\<close> with the text of \<open>e\<close> (behind the progress lines of the
  chunks before it) and returns \<open>None\<close>; when the last chunk arrives, it prints the line
  of success and returns the path. And the pipeline goes on: let every bookmark carry a
  title and a url, and let every download end after finitely many chunks, with \<open>done\<close> or
  with an exception. Then \<open>download_gdoc\<close> returns for every bookmark, the loop of the
  download script runs to its end without an exception, and what it prints is, bookmark
  after bookmark, the line \<open>Got ...\<close> and what \<open>download_gdoc\<close> prints for that bookmark
  alone: a failed export changes nothing for the bookmarks behind it.
\<close>

theorem download_continues_after_failure:
  "(extract_doc_id doc_url = Inl e \<longrightarrow>
      download_gdoc doc_url t save_folder creds =
        Some ([''Error downloading Google Doc: '' @ error_text e], None)) \<and>
   (extract_doc_id doc_url = Inr doc_id \<and> build creds = Some e \<longrightarrow>
      download_gdoc doc_url t save_folder creds =
        Some ([''Error downloading Google Doc: '' @ error_text e], None)) \<and>
   (extract_doc_id doc_url = Inr doc_id \<and> build creds = None \<and>
    open_wb creds (path_join save_folder (t @ ''.docx'')) = Some e \<longrightarrow>
      download_gdoc doc_url t save_folder creds =
        Some ([''Error downloading Google Doc: '' @ error_text e], None)) \<and>
   (extract_doc_id doc_url = Inr doc_id \<and> build creds = None \<and>
    open_wb creds (path_join save_folder (t @ ''.docx'')) = None \<and>
    (\<forall>k<length ps. next_chunk creds doc_id k = Inr (ps ! k, False)) \<and>
    next_chunk creds doc_id (length ps) = Inl e \<longrightarrow>
      download_gdoc doc_url t save_folder creds =
        Some (map (\<lambda>p. ''Download progress: '' @ str_nat p @ ''%'') ps @
              [''Error downloading Google Doc: '' @ error_text e], None)) \<and>
   (extract_doc_id doc_url = Inr doc_id \<and> build creds = None \<and>
    open_wb creds (path_join save_folder (t @ ''.docx'')) = None \<and>
    (\<forall>k<length ps. next_chunk creds doc_id k = Inr (ps ! k, False)) \<and>
    next_chunk creds doc_id (length ps) = Inr (p, True) \<longrightarrow>
      download_gdoc doc_url t save_folder creds =
        Some (map (\<lambda>p. ''Download progress: '' @ str_nat p @ ''%'') (ps @ [p]) @
              [''Google Doc downloaded successfully as '' @ [CHR 0x27] @
               path_join save_folder (t @ ''.docx'') @ [CHR 0x27]],
              Some (path_join save_folder (t @ ''.docx'')))) \<and>
   ((\<forall>b\<in>set bookmarks. bm_title b \<noteq> None \<and> bm_url b \<noteq> None) \<and>
    (\<forall>b\<in>set bookmarks. \<forall>doc_id. extract_doc_id (the (bm_url b)) = Inr doc_id \<longrightarrow>
           (\<exists>n. case next_chunk creds doc_id n of Inl e \<Rightarrow> True | Inr (progress, done) \<Rightarrow> done))
    \<longrightarrow>
      (\<forall>b\<in>set bookmarks.
          download_gdoc (the (bm_url b)) (the (bm_title b)) save_folder creds \<noteq> None) \<and>
      download_bookmarks bookmarks save_folder creds out =
        Some (out @ concat (map (\<lambda>b. (''Got '' @ the (bm_title b)) #
                fst (the (download_gdoc (the (bm_url b)) (the (bm_title b)) save_folder creds)))
              bookmarks), Inr ()) \<and>
      (\<forall>b\<in>set bookmarks. \<forall>printed.
          download_gdoc (the (bm_url b)) (the (bm_title b)) save_folder creds = Some (printed, None)
          \<longrightarrow> (\<exists>e. printed \<noteq> [] \<and>
                 last printed = ''Error downloading Google Doc: '' @ error_text e)))"
proof -
  let ?line = "\<lambda>p. ''Download progress: '' @ str_nat p @ ''%''"
  let ?err = "Some ([''Error downloading Google Doc: '' @ error_text e], None)"
  let ?path = "path_join save_folder (t @ ''.docx'')"
  have extraction: "extract_doc_id doc_url = Inl e \<longrightarrow>
      download_gdoc doc_url t save_folder creds = ?err"
    by (simp add: download_gdoc_def download_failed_def)
  have building: "extract_doc_id doc_url = Inr doc_id \<and> build creds = Some e \<longrightarrow>
      download_gdoc doc_url t save_folder creds = ?err"
    by (simp add: download_gdoc_def download_failed_def)
  have on_open: "extract_doc_id doc_url = Inr doc_id \<and> build creds = None \<and>
      open_wb creds ?path = Some e \<longrightarrow>
      download_gdoc doc_url t save_folder creds = ?err"
    by (simp add: download_gdoc_def download_failed_def Let_def)
  have chunk: "extract_doc_id doc_url = Inr doc_id \<and> build creds = None \<and>
      open_wb creds ?path = None \<and>
      (\<forall>k<length ps. next_chunk creds doc_id k = Inr (ps ! k, False)) \<and>
      next_chunk creds doc_id (length ps) = Inl e \<longrightarrow>
      download_gdoc doc_url t save_folder creds =
        Some (map ?line ps @ [''Error downloading Google Doc: '' @ error_text e], None)"
  proof
    assume h: "extract_doc_id doc_url = Inr doc_id \<and> build creds = None \<and>
      open_wb creds ?path = None \<and>
      (\<forall>k<length ps. next_chunk creds doc_id k = Inr (ps ! k, False)) \<and>
      next_chunk creds doc_id (length ps) = Inl e"
    then have "download_chunks creds doc_id 0 [] = Some (map ?line ps, Some e)"
      by (intro download_chunks_raises) simp_all
    with h show "download_gdoc doc_url t save_folder creds =
        Some (map ?line ps @ [''Error downloading Google Doc: '' @ error_text e], None)"
      by (simp add: download_gdoc_def download_failed_def Let_def)
  qed
  have success: "extract_doc_id doc_url = Inr doc_id \<and> build creds = None \<and>
      open_wb creds ?path = None \<and>
      (\<forall>k<length ps. next_chunk creds doc_id k = Inr (ps ! k, False)) \<and>
      next_chunk creds doc_id (length ps) = Inr (p, True) \<longrightarrow>
      download_gdoc doc_url t save_folder creds =
        Some (map ?line (ps @ [p]) @
              [''Google Doc downloaded successfully as '' @ [CHR 0x27] @ ?path @ [CHR 0x27]],
              Some ?path)"
  proof
    assume h: "extract_doc_id doc_url = Inr doc_id \<and> build creds = None \<and>
      open_wb creds ?path = None \<and>
      (\<forall>k<length ps. next_chunk creds doc_id k = Inr (ps ! k, False)) \<and>
      next_chunk creds doc_id (length ps) = Inr (p, True)"
    then have "download_chunks creds doc_id 0 [] = Some (map ?line (ps @ [p]), None)"
      by (intro download_chunks_done) simp_all
    with h show "download_gdoc doc_url t save_folder creds =
        Some (map ?line (ps @ [p]) @
              [''Google Doc downloaded successfully as '' @ [CHR 0x27] @ ?path @ [CHR 0x27]],
              Some ?path)"
      by (simp add: download_gdoc_def Let_def)
  qed
  have loop: "(\<forall>b\<in>set bookmarks. bm_title b \<noteq> None \<and> bm_url b \<noteq> None) \<and>
    (\<forall>b\<in>set bookmarks. \<forall>doc_id. extract_doc_id (the (bm_url b)) = Inr doc_id \<longrightarrow>
           (\<exists>n. case next_chunk creds doc_id n of Inl e \<Rightarrow> True | Inr (progress, done) \<Rightarrow> done))
    \<longrightarrow>
      (\<forall>b\<in>set bookmarks.
          download_gdoc (the (bm_url b)) (the (bm_title b)) save_folder creds \<noteq> None) \<and>
      download_bookmarks bookmarks save_folder creds out =
        Some (out @ concat (map (\<lambda>b. (''Got '' @ the (bm_title b)) #
                fst (the (download_gdoc (the (bm_url b)) (the (bm_title b)) save_folder creds)))
              bookmarks), Inr ()) \<and>
      (\<forall>b\<in>set bookmarks. \<forall>printed.
          download_gdoc (the (bm_url b)) (the (bm_title b)) save_folder creds = Some (printed, None)
          \<longrightarrow> (\<exists>e. printed \<noteq> [] \<and>
                 last printed = ''Error downloading Google Doc: '' @ error_text e))"
  proof
    assume h: "(\<forall>b\<in>set bookmarks. bm_title b \<noteq> None \<and> bm_url b \<noteq> None) \<and>
      (\<forall>b\<in>set bookmarks. \<forall>doc_id. extract_doc_id (the (bm_url b)) = Inr doc_id \<longrightarrow>
           (\<exists>n. case next_chunk creds doc_id n of Inl e \<Rightarrow> True | Inr (progress, done) \<Rightarrow> done))"
    have ret: "\<forall>b\<in>set bookmarks.
        download_gdoc (the (bm_url b)) (the (bm_title b)) save_folder creds \<noteq> None"
    proof
      fix b assume "b \<in> set bookmarks"
      with h have "\<forall>doc_id. extract_doc_id (the (bm_url b)) = Inr doc_id \<longrightarrow>
           (\<exists>n. chunk_final (next_chunk creds doc_id n))"
        unfolding chunk_final_def by blast
      then show "download_gdoc (the (bm_url b)) (the (bm_title b)) save_folder creds \<noteq> None"
        by (rule download_gdoc_returns)
    qed
    with h have "\<forall>b\<in>set bookmarks. bm_title b \<noteq> None \<and> bm_url b \<noteq> None \<and>
             download_gdoc (the (bm_url b)) (the (bm_title b)) save_folder creds \<noteq> None"
      by blast
    from download_bookmarks_all [OF this] ret download_gdoc_reports
    show "(\<forall>b\<in>set bookmarks.
          download_gdoc (the (bm_url b)) (the (bm_title b)) save_folder creds \<noteq> None) \<and>
      download_bookmarks bookmarks save_folder creds out =
        Some (out @ concat (map (\<lambda>b. (''Got '' @ the (bm_title b)) #
                fst (the (download_gdoc (the (bm_url b)) (the (bm_title b)) save_folder creds)))
              bookmarks), Inr ()) \<and>
      (\<forall>b\<in>set bookmarks. \<forall>printed.
          download_gdoc (the (bm_url b)) (the (bm_title b)) save_folder creds = Some (printed, None)
          \<longrightarrow> (\<exists>e. printed \<noteq> [] \<and>
                 last printed = ''Error downloading Google Doc: '' @ error_text e))"
      by blast
  qed
  show ?thesis
    by (intro conjI extraction building on_open chunk success loop)
qed

theorem download_continues_after_failure_witness:
  "download_gdoc ''https://docs.google.com/document/u/0/'' ''Home'' ''out'' example_creds =
     Some ([''Error downloading Google Doc: list index out of range''], None) \<and>
   download_gdoc ''https://docs.google.com/document/d/doc2/edit'' ''January notes'' ''out'' example_creds =
     Some ([''Error downloading Google Doc: export failed''], None) \<and>
   download_gdoc ''https://docs.google.com/document/d/doc3/edit'' ''January later'' ''out'' example_creds =
     Some ([''Download progress: 50%'', ''Download progress: 100%'',
            ''Google Doc downloaded successfully as '' @ [CHR 0x27] @ ''out/January later.docx'' @ [CHR 0x27]],
           Some ''out/January later.docx'') \<and>
   download_bookmarks download_items ''out'' example_creds [] =
     Some ([''Got May notes'', ''Download progress: 50%'', ''Download progress: 100%'',
            ''Google Doc downloaded successfully as '' @ [CHR 0x27] @ ''out/May notes.docx'' @ [CHR 0x27],
            ''Got January notes'', ''Error downloading Google Doc: export failed'',
            ''Got Home'', ''Error downloading Google Doc: list index out of range'',
            ''Got January later'', ''Download progress: 50%'', ''Download progress: 100%'',
            ''Google Doc downloaded successfully as '' @ [CHR 0x27] @ ''out/January later.docx'' @ [CHR 0x27]],
           Inr ())"
proof -
  note claim = download_continues_after_failure
  have home: "extract_doc_id ''https://docs.google.com/document/u/0/'' = Inl IndexError"
    by code_simp
  have built: "build example_creds = None"
    by (simp add: example_creds_def)
  have opened: "\<And>path. open_wb example_creds path = None"
    by (simp add: example_creds_def)
  have fail2: "next_chunk example_creds ''doc2'' (length ([]::nat list)) = Inl (Failure ''export failed'')"
    by (simp add: example_creds_def)
  have first3: "\<forall>k<length [50::nat]. next_chunk example_creds ''doc3'' k = Inr ([50] ! k, False)"
    by (simp add: example_creds_def)
  have last3: "next_chunk example_creds ''doc3'' (length [50::nat]) = Inr (100, True)"
    by (simp add: example_creds_def)
  have titles: "\<forall>b\<in>set download_items. bm_title b \<noteq> None \<and> bm_url b \<noteq> None"
    by (simp add: download_items_def)
  have "\<forall>doc_id. case next_chunk example_creds doc_id 1 of
          Inl e \<Rightarrow> True | Inr (progress, done) \<Rightarrow> done"
    by (simp add: example_creds_def)
  then have ends: "\<forall>b\<in>set download_items. \<forall>doc_id. extract_doc_id (the (bm_url b)) = Inr doc_id \<longrightarrow>
      (\<exists>n. case next_chunk example_creds doc_id n of Inl e \<Rightarrow> True | Inr (progress, done) \<Rightarrow> done)"
    by blast
  have run: "download_bookmarks download_items ''out'' example_creds [] =
     Some ([''Got May notes'', ''Download progress: 50%'', ''Download progress: 100%'',
            ''Google Doc downloaded successfully as '' @ [CHR 0x27] @ ''out/May notes.docx'' @ [CHR 0x27],
            ''Got January notes'', ''Error downloading Google Doc: export failed'',
            ''Got Home'', ''Error downloading Google Doc: list index out of range'',
            ''Got January later'', ''Download progress: 50%'', ''Download progress: 100%'',
            ''Google Doc downloaded successfully as '' @ [CHR 0x27] @ ''out/January later.docx'' @ [CHR 0x27]],
           Inr ())"
    by code_simp
  have a: "download_gdoc ''https://docs.google.com/document/u/0/'' ''Home'' ''out'' example_creds =
     Some ([''Error downloading Google Doc: list index out of range''], None)"
    using claim [of "''https://docs.google.com/document/u/0/''" IndexError "''Home''" "''out''" example_creds]
      home by simp
  have b: "download_gdoc ''https://docs.google.com/document/d/doc2/edit'' ''January notes'' ''out'' example_creds =
     Some ([''Error downloading Google Doc: export failed''], None)"
    using claim [of "''https://docs.google.com/document/d/doc2/edit''" "Failure ''export failed''"
        "''January notes''" "''out''" example_creds "''doc2''" "[]"]
      example_doc_ids(2) built opened fail2 by simp
  have c: "download_gdoc ''https://docs.google.com/document/d/doc3/edit'' ''January later'' ''out'' example_creds =
     Some ([''Download progress: 50%'', ''Download progress: 100%'',
            ''Google Doc downloaded successfully as '' @ [CHR 0x27] @ ''out/January later.docx'' @ [CHR 0x27]],
           Some ''out/January later.docx'')"
  proof -
    have digits: "str_nat 50 = ''50''" "str_nat 100 = ''100''"
      by code_simp+
    have path: "path_join ''out'' (''January later'' @ ''.docx'') = ''out/January later.docx''"
      by code_simp
    from claim [of "''https://docs.google.com/document/d/doc3/edit''" _ "''January later''" "''out''"
        example_creds "''doc3''" "[50]" 100]
      example_doc_ids(3) built opened first3 last3
    have "download_gdoc ''https://docs.google.com/document/d/doc3/edit'' ''January later'' ''out'' example_creds =
        Some (map (\<lambda>p. ''Download progress: '' @ str_nat p @ ''%'') ([50] @ [100]) @
              [''Google Doc downloaded successfully as '' @ [CHR 0x27] @
               path_join ''out'' (''January later'' @ ''.docx'') @ [CHR 0x27]],
              Some (path_join ''out'' (''January later'' @ ''.docx'')))"
      by blast
    then show ?thesis
      unfolding path by (simp add: digits del: str_nat.simps)
  qed
  from claim [of _ _ _ "''out''" example_creds _ _ _ download_items "[]"] titles ends
  have "download_bookmarks download_items ''out'' example_creds [] =
      Some ([] @ concat (map (\<lambda>b. (''Got '' @ the (bm_title b)) #
                fst (the (download_gdoc (the (bm_url b)) (the (bm_title b)) ''out'' example_creds)))
              download_items), Inr ())"
    by blast
  with a b c run show ?thesis
    by simp
qed

section \<open>Reorganize mode: a failed metadata fetch\<close>

lemma collect_docs_info_failed_fetch:
  assumes "bm_url bookmark = Some u" and "bm_title bookmark = Some t"
    and "fetch_google_doc_info u creds = (out, Inr None)"
  shows "collect_docs_info creds (bookmark # bookmarks) evs docs_info =
         (evs @ map Print out, Inl TypeError)"
  using assms by simp

text \<open>
  Claim C2 says that a bookmark whose metadata fetch fails is dropped and the others
  are still processed. In the source, \<open>fetch_google_doc_info\<close> returns \<open>None\<close> for such a
  bookmark and the loop of step 4 subscripts that value: the run ends there with a
  \<open>TypeError\<close>. On the example account with \<open>failing_creds\<close>, the document of the second
  bookmark cannot be read; the third bookmark is never looked at and nothing is added.
\<close>

theorem reorganize_aborts_on_failed_fetch:
  "main_reorganize example_args example_uuid (Inr (example_session, failing_creds)) =
     ([Print ''Scanning folder: Reading'', Print ''New folder name: Sorted'',
       Print ''Got May notes - Ann 2023-05-01'',
       Print ''Error retrieving metadata: File not found''],
      Inl TypeError)"
  by code_simp

end
